theory Spec2Isabelle
  imports Complex_Main "HOL-Library.Sublist" "HOL-Library.AList"
begin

section \<open>Values, exceptions and the environment\<close>

text \<open>
  The mail demo consists of \<^verbatim>\<open>mail_sink/server.py\<close> (the SMTP capture sink) and
  \<^verbatim>\<open>mcp_server/utils.py\<close> (sending, listing, reading). Python strings and byte strings
  are both modelled as \<^typ>\<open>string\<close>, a character standing for a code point (those above 255
  are outside the model); a value read back from a metadata file is a JSON value
  (its numbers are integers here: the code only tests a number for truth). A Python dict
  is an association list with distinct keys, looked up with \<^const>\<open>map_of\<close>; assignment to
  a key is \<^const>\<open>AList.update\<close>, which keeps the position of an existing key and appends a
  new one, as Python dicts do.
\<close>

type_synonym bytes = string

datatype json =
    JNull
  | JBool bool
  | JNum int
  | JStr string
  | JArr "json list"
  | JObj "(string \<times> json) list"

type_synonym dict = "(string \<times> json) list"

text \<open>Python truthiness, as used by \<^verbatim>\<open>x or default\<close>, \<^verbatim>\<open>if not data\<close> and \<^verbatim>\<open>if query\<close>.\<close>

fun truthy :: "json \<Rightarrow> bool" where
  "truthy JNull = False"
| "truthy (JBool b) = b"
| "truthy (JNum n) = (n \<noteq> 0)"
| "truthy (JStr s) = (s \<noteq> [])"
| "truthy (JArr xs) = (xs \<noteq> [])"
| "truthy (JObj kvs) = (kvs \<noteq> [])"

text \<open>\<^verbatim>\<open>d.get(k)\<close> is \<^term>\<open>map_of d k\<close>; a missing key and a stored null both count as
  Python's None. \<^verbatim>\<open>d.get(k) or dflt\<close>:\<close>

definition get_or :: "dict \<Rightarrow> string \<Rightarrow> json \<Rightarrow> json" where
  "get_or d k dflt = (case map_of d k of None \<Rightarrow> dflt | Some v \<Rightarrow> if truthy v then v else dflt)"

text \<open>\<^verbatim>\<open>d.get(k, dflt)\<close>: the default only replaces a missing key.\<close>

definition get_default :: "dict \<Rightarrow> string \<Rightarrow> json \<Rightarrow> json" where
  "get_default d k dflt = (case map_of d k of None \<Rightarrow> dflt | Some v \<Rightarrow> v)"

text \<open>\<^verbatim>\<open>d.get(k)\<close> as a JSON value (None is null).\<close>

definition get_json :: "dict \<Rightarrow> string \<Rightarrow> json" where
  "get_json d k = get_default d k JNull"

datatype exn =
    FileNotFoundError string
  | IsADirectoryError
  | AttributeError
  | TypeError
  | LookupError
  | ValueError
  | OSError
  | EmailError
  | RuntimeError
  | IndexError

definition exn_bind :: "exn + 'a \<Rightarrow> ('a \<Rightarrow> exn + 'b) \<Rightarrow> exn + 'b" where
  "exn_bind m f = (case m of Inl e \<Rightarrow> Inl e | Inr x \<Rightarrow> f x)"

text \<open>The file system: a path holds nothing, a directory, or a regular file with its bytes.\<close>

datatype fnode = Dir | File bytes

type_synonym fs = "string \<rightharpoonup> fnode"

definition path_exists :: "fs \<Rightarrow> string \<Rightarrow> bool" where
  "path_exists fs p = (fs p \<noteq> None)"

definition is_file :: "fs \<Rightarrow> string \<Rightarrow> bool" where
  "is_file fs p = (case fs p of Some (File b) \<Rightarrow> True | _ \<Rightarrow> False)"

text \<open>
  ASCII lower-casing. It stands for \<^verbatim>\<open>str.lower()\<close> only where the code compares the
  result with an ASCII word (the disposition \<^verbatim>\<open>attachment\<close>, the allowed file
  extensions): no character outside A-Z lower-cases to a letter of these words, so the
  comparison comes out the same. The lower-casing of the search text is the library's
  (\<open>lower\<close>, below).
\<close>

definition lower_char :: "char \<Rightarrow> char" where
  "lower_char c =
     (case map_of (zip ''ABCDEFGHIJKLMNOPQRSTUVWXYZ'' ''abcdefghijklmnopqrstuvwxyz'') c of
        None \<Rightarrow> c
      | Some l \<Rightarrow> l)"

definition str_lower :: "string \<Rightarrow> string" where
  "str_lower s = map lower_char s"

text \<open>\<^verbatim>\<open>sep.join(xs)\<close>.\<close>

fun py_join :: "string \<Rightarrow> string list \<Rightarrow> string" where
  "py_join sep [] = []"
| "py_join sep [x] = x"
| "py_join sep (x # y # ys) = x @ sep @ py_join sep (y # ys)"

text \<open>\<^verbatim>\<open>q in h\<close> on strings: \<open>q\<close> occurs in \<open>h\<close> as a contiguous run.\<close>

fun is_substr :: "string \<Rightarrow> string \<Rightarrow> bool" where
  "is_substr q [] = (q = [])"
| "is_substr q (c # cs) = (prefix q (c # cs) \<or> is_substr q cs)"

text \<open>
  One MIME part as the \<^verbatim>\<open>email\<close> package presents it. The fields are the results of the
  calls the two modules make on a part: \<^verbatim>\<open>get_content_type()\<close>,
  \<^verbatim>\<open>get_content_disposition()\<close>, \<^verbatim>\<open>get_filename()\<close>, \<^verbatim>\<open>get_content_charset()\<close>,
  \<^verbatim>\<open>get_content()\<close> (None when it raises) and \<^verbatim>\<open>get_payload(decode=True)\<close>.
\<close>

datatype payload = PayloadRaises | PayloadNone | PayloadBytes bytes

record part_info =
  content_type :: string
  content_disposition :: "string option"
  filename :: "string option"
  content_charset :: "string option"
  get_content :: "string option"
  get_payload :: payload
  headers :: "(string \<times> string) list"

datatype message = Leaf part_info | Multipart part_info "message list"

fun info :: "message \<Rightarrow> part_info" where
  "info (Leaf i) = i"
| "info (Multipart i ps) = i"

fun is_multipart :: "message \<Rightarrow> bool" where
  "is_multipart (Leaf i) = False"
| "is_multipart (Multipart i ps) = True"

text \<open>\<^verbatim>\<open>Message.walk()\<close>: the part itself, then the walk of each subpart in order.\<close>

fun walk :: "message \<Rightarrow> message list" where
  "walk (Leaf i) = [Leaf i]"
| "walk (Multipart i ps) = Multipart i ps # concat (map walk ps)"

text \<open>
  The library and run-time services the code calls, as parameters: \<^verbatim>\<open>json.loads\<close> on the
  text of a file (None when reading or parsing raises, any JSON value otherwise),
  \<^verbatim>\<open>json.dumps\<close>, \<^verbatim>\<open>str.lower()\<close>,
  \<^verbatim>\<open>datetime.fromisoformat(s).timestamp()\<close> (None when it raises),
  \<^verbatim>\<open>BytesParser(policy=default).parsebytes\<close>, \<^verbatim>\<open>Message.as_bytes(policy=default)\<close>,
  \<^verbatim>\<open>Path(name).suffix\<close>, \<^verbatim>\<open>bytes.decode(charset, errors="replace")\<close> (None when the
  codec lookup raises), \<^verbatim>\<open>str(make_header(decode_header(v)))\<close> (None when it raises),
  \<^verbatim>\<open>Path.expanduser\<close> (None when it raises RuntimeError, as for an unknown
  \<^verbatim>\<open>~user\<close>), \<^verbatim>\<open>mimetypes.guess_type\<close>,
  \<^verbatim>\<open>AsyncMessage.prepare_message\<close> of aiosmtpd, the base class of the sink's handler,
  which turns the bytes received in the SMTP DATA phase into the Message object it hands
  to \<^verbatim>\<open>handle_message\<close>, and \<open>header_error\<close>: the exception, if any, that reading
  the named header of a message parsed with the default policy raises (the policy parses
  a header when it is read).
\<close>

record lib =
  json_loads :: "bytes \<Rightarrow> json option"
  json_dumps :: "dict \<Rightarrow> bytes"
  lower :: "string \<Rightarrow> string"
  iso_timestamp :: "string \<Rightarrow> real option"
  parsebytes :: "bytes \<Rightarrow> message"
  as_bytes :: "message \<Rightarrow> bytes"
  path_suffix :: "string \<Rightarrow> string"
  codec_decode :: "string \<Rightarrow> bytes \<Rightarrow> string option"
  rfc2047_decode :: "string \<Rightarrow> string option"
  expanduser :: "string \<Rightarrow> string option"
  guess_type :: "string \<Rightarrow> string option"
  prepare_message :: "bytes \<Rightarrow> message"
  header_error :: "message \<Rightarrow> string \<Rightarrow> exn option"

section \<open>Listing (\<^verbatim>\<open>mcp_server/utils.py\<close>)\<close>

text \<open>The mail directory \<^verbatim>\<open>mcp_mail\<close> next to the package (its parent directory is left
  implicit).\<close>

definition MAIL_DIR :: string where
  "MAIL_DIR = ''mcp_mail''"

text \<open>\<^verbatim>\<open>_safe_load\<close> returns Python's None when reading or parsing raises, and also when
  the file holds the JSON value null.\<close>

definition safe_load :: "lib \<Rightarrow> fs \<Rightarrow> string \<Rightarrow> json option" where
  "safe_load L fs path =
     (case fs path of
        Some (File b) \<Rightarrow> (case json_loads L b of Some JNull \<Rightarrow> None | r \<Rightarrow> r)
      | _ \<Rightarrow> None)"

text \<open>The loading loop of \<^verbatim>\<open>list_emails_fs\<close>: \<^verbatim>\<open>if not data: continue\<close> skips a file
  that did not load and every value that is not true (an empty dict, an empty list, 0).
  Whatever else a file holds is kept, object or not.\<close>

fun load_recs :: "lib \<Rightarrow> fs \<Rightarrow> string list \<Rightarrow> json list" where
  "load_recs L fs [] = []"
| "load_recs L fs (p # ps) =
     (case safe_load L fs p of
        None \<Rightarrow> load_recs L fs ps
      | Some d \<Rightarrow> if \<not> truthy d then load_recs L fs ps else d # load_recs L fs ps)"

text \<open>\<^verbatim>\<open>r.get\<close> exists on a dict only: on any other value it is an AttributeError. The
  sort calls its key function, and so \<^verbatim>\<open>r.get\<close>, on every loaded value in turn.\<close>

fun dict_of :: "json \<Rightarrow> exn + dict" where
  "dict_of (JObj d) = Inr d"
| "dict_of v = Inl AttributeError"

fun dicts_of :: "json list \<Rightarrow> exn + dict list" where
  "dicts_of [] = Inr []"
| "dicts_of (v # vs) =
     exn_bind (dict_of v) (\<lambda>d. exn_bind (dicts_of vs) (\<lambda>ds. Inr (d # ds)))"

definition parse_iso :: "lib \<Rightarrow> json \<Rightarrow> real" where
  "parse_iso L s =
     (case s of
        JStr t \<Rightarrow> (case iso_timestamp L t of Some x \<Rightarrow> x | None \<Rightarrow> 0)
      | _ \<Rightarrow> 0)"

definition stored_key :: "lib \<Rightarrow> dict \<Rightarrow> real" where
  "stored_key L r = parse_iso L (get_default r ''stored_at'' (JStr ''''))"

text \<open>\<^verbatim>\<open>xs.sort(key=k, reverse=True)\<close>: stable, descending; equal keys keep their order.\<close>

definition sort_reverse :: "('a \<Rightarrow> real) \<Rightarrow> 'a list \<Rightarrow> 'a list" where
  "sort_reverse k xs = rev (sort_key k (rev xs))"

text \<open>\<^verbatim>\<open>v.lower()\<close> for a value that is a string, AttributeError otherwise.\<close>

fun lower_of :: "lib \<Rightarrow> json \<Rightarrow> exn + string" where
  "lower_of L (JStr s) = Inr (lower L s)"
| "lower_of L v = Inl AttributeError"

text \<open>\<^verbatim>\<open>" ".join(v)\<close>: a list of strings is joined, a string is joined character by
  character, a dict by its keys; anything else is a TypeError.\<close>

fun str_of :: "json \<Rightarrow> string option" where
  "str_of (JStr s) = Some s"
| "str_of v = None"

fun join_to :: "json \<Rightarrow> exn + string" where
  "join_to (JArr xs) =
     (case those (map str_of xs) of
        Some ss \<Rightarrow> Inr (py_join '' '' ss)
      | None \<Rightarrow> Inl TypeError)"
| "join_to (JStr s) = Inr (py_join '' '' (map (\<lambda>c. [c]) s))"
| "join_to (JObj kvs) = Inr (py_join '' '' (map fst kvs))"
| "join_to v = Inl TypeError"

definition hay :: "lib \<Rightarrow> dict \<Rightarrow> exn + string" where
  "hay L r =
     exn_bind (lower_of L (get_or r ''subject'' (JStr ''''))) (\<lambda>subj.
     exn_bind (lower_of L (get_or r ''from'' (JStr ''''))) (\<lambda>frm.
     exn_bind (join_to (get_or r ''to'' (JArr []))) (\<lambda>to.
     exn_bind (lower_of L (get_or r ''text'' (JStr ''''))) (\<lambda>text.
       Inr (py_join '' | '' [subj, frm, lower L to, text])))))"

text \<open>The comprehension \<^verbatim>\<open>[r for r in recs if q in hay(r)]\<close>; the first record whose
  haystack raises ends it.\<close>

fun filter_hay :: "lib \<Rightarrow> string \<Rightarrow> dict list \<Rightarrow> exn + dict list" where
  "filter_hay L q [] = Inr []"
| "filter_hay L q (r # rs) =
     exn_bind (hay L r) (\<lambda>h.
     exn_bind (filter_hay L q rs) (\<lambda>out.
       Inr (if is_substr q h then r # out else out)))"

definition summary :: "dict \<Rightarrow> dict" where
  "summary r =
     [(''id'', get_json r ''id''),
      (''subject'', get_json r ''subject''),
      (''from'', get_json r ''from''),
      (''to'', get_json r ''to''),
      (''date'', get_json r ''date'')]"

text \<open>\<open>paths\<close> is \<^verbatim>\<open>sorted(MAIL_DIR.glob("*.json"))\<close>, the directory listing.\<close>

definition list_emails_fs ::
  "lib \<Rightarrow> fs \<Rightarrow> string list \<Rightarrow> string option \<Rightarrow> int \<Rightarrow> exn + dict list" where
  "list_emails_fs L fs paths query limit =
     exn_bind (dicts_of (load_recs L fs paths)) (\<lambda>ds.
       (let recs = sort_reverse (stored_key L) ds in
        exn_bind
          (case query of
             None \<Rightarrow> Inr recs
           | Some q \<Rightarrow> if q \<noteq> [] then filter_hay L (lower L q) recs else Inr recs)
          (\<lambda>recs'. Inr (map summary (take (nat (max 1 limit)) recs')))))"

section \<open>Reading one message (\<^verbatim>\<open>mcp_server/utils.py\<close>)\<close>

definition ALLOWED_CT :: "string list" where
  "ALLOWED_CT =
     [''text/plain'', ''text/csv'', ''application/json'', ''application/yaml'',
      ''text/yaml'', ''application/x-yaml'']"

definition ALLOWED_EXT :: "string list" where
  "ALLOWED_EXT = [''.txt'', ''.csv'', ''.json'', ''.yaml'', ''.yml'']"

definition MAX_TEXT_BYTES :: nat where
  "MAX_TEXT_BYTES = 512 * 1024"

definition is_allowed_attachment :: "lib \<Rightarrow> string option \<Rightarrow> string \<Rightarrow> bool" where
  "is_allowed_attachment L part_filename ctype =
     (if ctype \<in> set ALLOWED_CT then True
      else case part_filename of
             None \<Rightarrow> False
           | Some f \<Rightarrow> if f \<noteq> [] then str_lower (path_suffix L f) \<in> set ALLOWED_EXT else False)"

text \<open>\<^verbatim>\<open>(part.get_content_disposition() or "").lower()\<close>\<close>

definition disp :: "message \<Rightarrow> string" where
  "disp p = str_lower (case content_disposition (info p) of None \<Rightarrow> [] | Some d \<Rightarrow> d)"

text \<open>\<^verbatim>\<open>bool(filename)\<close> and \<^verbatim>\<open>filename or ""\<close>\<close>

definition has_filename :: "message \<Rightarrow> bool" where
  "has_filename p = (case filename (info p) of None \<Rightarrow> False | Some f \<Rightarrow> f \<noteq> [])"

definition filename_or_empty :: "message \<Rightarrow> string" where
  "filename_or_empty p = (case filename (info p) of None \<Rightarrow> [] | Some f \<Rightarrow> f)"

definition is_attachment :: "message \<Rightarrow> bool" where
  "is_attachment p = (disp p = ''attachment'' \<or> has_filename p)"

text \<open>\<^verbatim>\<open>part.get_content_charset() or "utf-8"\<close>\<close>

definition charset_or_utf8 :: "message \<Rightarrow> string" where
  "charset_or_utf8 p =
     (case content_charset (info p) of None \<Rightarrow> ''utf-8'' | Some c \<Rightarrow> if c \<noteq> [] then c else ''utf-8'')"

text \<open>The \<^verbatim>\<open>try\<close> around \<^verbatim>\<open>preview.decode(charset, errors="replace")\<close>: when it raises,
  the handler decodes as UTF-8.\<close>

definition decode_preview :: "lib \<Rightarrow> message \<Rightarrow> bytes \<Rightarrow> exn + string" where
  "decode_preview L p preview =
     (case codec_decode L (charset_or_utf8 p) preview of
        Some t \<Rightarrow> Inr t
      | None \<Rightarrow> (case codec_decode L ''utf-8'' preview of
                   Some t \<Rightarrow> Inr t
                 | None \<Rightarrow> Inl LookupError))"

text \<open>The body of the loop of \<^verbatim>\<open>_extract_textual_attachments\<close> for one attachment part.\<close>

definition textual_entry :: "lib \<Rightarrow> message \<Rightarrow> exn + dict" where
  "textual_entry L p =
     (case get_payload (info p) of
        PayloadRaises \<Rightarrow> Inl EmailError
      | pl \<Rightarrow>
          (let ctype = content_type (info p);
               payload = (case pl of PayloadBytes b \<Rightarrow> b | _ \<Rightarrow> []);
               entry = [(''filename'', JStr (filename_or_empty p)),
                        (''content_type'', JStr ctype),
                        (''size_bytes'', JNum (int (length payload)))]
           in if is_allowed_attachment L (filename (info p)) ctype
              then exn_bind (decode_preview L p (take MAX_TEXT_BYTES payload))
                     (\<lambda>t. Inr (AList.update ''text'' (JStr t) entry))
              else Inr entry))"

fun extract_loop :: "lib \<Rightarrow> message list \<Rightarrow> exn + dict list" where
  "extract_loop L [] = Inr []"
| "extract_loop L (p # ps) =
     (if \<not> is_attachment p then extract_loop L ps
      else exn_bind (textual_entry L p) (\<lambda>entry.
           exn_bind (extract_loop L ps) (\<lambda>results. Inr (entry # results))))"

definition extract_textual_attachments :: "lib \<Rightarrow> fs \<Rightarrow> string \<Rightarrow> exn + dict list" where
  "extract_textual_attachments L fs eml_path =
     (case fs eml_path of
        None \<Rightarrow> Inr []
      | Some Dir \<Rightarrow> Inl IsADirectoryError
      | Some (File raw) \<Rightarrow> extract_loop L (walk (parsebytes L raw)))"

text \<open>\<^verbatim>\<open>MAIL_DIR / name\<close>: an absolute right operand replaces the left one.\<close>

definition path_join :: "string \<Rightarrow> string \<Rightarrow> string" where
  "path_join d n = (case n of c # cs \<Rightarrow> if c = CHR ''/'' then n else d @ ''/'' @ n | [] \<Rightarrow> d)"

text \<open>\<^verbatim>\<open>Path(s)\<close>: the empty string is the current directory.\<close>

definition mk_path :: "string \<Rightarrow> string" where
  "mk_path s = (if s = [] then ''.'' else s)"

text \<open>\<^verbatim>\<open>path.name\<close>: the last component.\<close>

definition path_name :: "string \<Rightarrow> string" where
  "path_name p = rev (takeWhile (\<lambda>c. c \<noteq> CHR ''/'') (rev p))"

text \<open>\<^verbatim>\<open>if eml_path\<close> on a \<^verbatim>\<open>pathlib.Path\<close>: the class defines neither \<^verbatim>\<open>__bool__\<close> nor
  \<^verbatim>\<open>__len__\<close>, so every path object is true.\<close>

definition path_truthy :: "string \<Rightarrow> bool" where
  "path_truthy p = True"

definition error_dict :: "string \<Rightarrow> string \<Rightarrow> dict" where
  "error_dict code msg = [(''error'', JObj [(''code'', JStr code), (''message'', JStr msg)])]"

definition get_email_fs :: "lib \<Rightarrow> fs \<Rightarrow> string \<Rightarrow> exn + dict" where
  "get_email_fs L fs email_id =
     (let path = path_join MAIL_DIR (email_id @ ''.json'') in
      if \<not> path_exists fs path
      then Inr (error_dict ''NOT_FOUND'' (''Email id '' @ email_id @ '' not found''))
      else case safe_load L fs path of
             None \<Rightarrow> Inr (error_dict ''READ_ERROR'' (''Failed to read '' @ path_name path))
           | Some v \<Rightarrow>
               exn_bind (dict_of v) (\<lambda>data.
               (case get_or data ''raw_path'' (JStr []) of
                  JStr s \<Rightarrow>
                    (let eml_path = mk_path s in
                     exn_bind
                       (if path_truthy eml_path
                        then exn_bind (extract_textual_attachments L fs eml_path)
                               (\<lambda>atts. Inr (JArr (map JObj atts)))
                        else Inr (get_or data ''attachments'' (JArr [])))
                       (\<lambda>enriched_attachments.
                          Inr (AList.update ''attachments'' enriched_attachments data)))
                | _ \<Rightarrow> Inl TypeError)))"

section \<open>Sending (\<^verbatim>\<open>mcp_server/utils.py\<close>)\<close>

record SendResult =
  success :: bool
  message_id :: "string option"
  error :: "string option"

datatype body = Plain string | Alternative string string

record attachment =
  att_data :: bytes
  att_maintype :: string
  att_subtype :: string
  att_filename :: string

record email_message =
  msg_headers :: "(string \<times> string) list"
  msg_body :: body
  msg_attachments :: "attachment list"

record send_request =
  from_addr :: string
  to_addrs :: "string list"
  subject :: string
  text_body :: "string option"
  html_body :: "string option"
  cc_addrs :: "string list option"
  bcc_addrs :: "string list option"
  attachments_paths :: "string list option"

text \<open>\<^verbatim>\<open>ctype.split("/", 1)\<close> unpacked into two names: a ValueError without a slash.\<close>

definition split_ctype :: "string \<Rightarrow> exn + string \<times> string" where
  "split_ctype c =
     (if CHR ''/'' \<in> set c
      then Inr (takeWhile (\<lambda>x. x \<noteq> CHR ''/'') c, tl (dropWhile (\<lambda>x. x \<noteq> CHR ''/'') c))
      else Inl ValueError)"

fun attach_loop :: "lib \<Rightarrow> fs \<Rightarrow> email_message \<Rightarrow> string list \<Rightarrow> exn + email_message" where
  "attach_loop L fs msg [] = Inr msg"
| "attach_loop L fs msg (p # ps) =
     (if p = [] then attach_loop L fs msg ps
      else
        (case expanduser L p of
           None \<Rightarrow> Inl RuntimeError
         | Some fp \<Rightarrow>
             if \<not> path_exists fs fp \<or> \<not> is_file fs fp
             then Inl (FileNotFoundError (''Attachment not found: '' @ p))
             else
               (case fs fp of
                  Some (File data) \<Rightarrow>
                    exn_bind
                      (case guess_type L (path_name fp) of
                         None \<Rightarrow> Inr (''application'', ''octet-stream'')
                       | Some ctype \<Rightarrow>
                           if ctype \<noteq> [] then split_ctype ctype
                           else Inr (''application'', ''octet-stream''))
                      (\<lambda>(maintype, subtype).
                         attach_loop L fs
                           (msg\<lparr>msg_attachments := msg_attachments msg @
                              [\<lparr>att_data = data, att_maintype = maintype, att_subtype = subtype,
                                att_filename = path_name fp\<rparr>]\<rparr>) ps)
                | _ \<Rightarrow> Inl OSError)))"

definition attach_files :: "lib \<Rightarrow> fs \<Rightarrow> email_message \<Rightarrow> string list option \<Rightarrow> exn + email_message" where
  "attach_files L fs msg paths =
     (case paths of
        None \<Rightarrow> Inr msg
      | Some ps \<Rightarrow> if ps = [] then Inr msg else attach_loop L fs msg ps)"

definition opt_truthy :: "'a list option \<Rightarrow> bool" where
  "opt_truthy x = (case x of None \<Rightarrow> False | Some v \<Rightarrow> v \<noteq> [])"

definition opt_or_empty :: "'a list option \<Rightarrow> 'a list" where
  "opt_or_empty x = (case x of None \<Rightarrow> [] | Some v \<Rightarrow> v)"

text \<open>Assigning a header of an \<^verbatim>\<open>EmailMessage\<close> raises ValueError when the value holds a
  line feed or a carriage return.\<close>

definition has_newline :: "string \<Rightarrow> bool" where
  "has_newline s = (CHR 0x0A \<in> set s \<or> CHR 0x0D \<in> set s)"

definition build_message :: "string \<Rightarrow> string \<Rightarrow> send_request \<Rightarrow> exn + email_message" where
  "build_message date mid rq =
     (let hdrs =
        [(''From'', from_addr rq), (''To'', py_join '', '' (to_addrs rq))]
        @ (if opt_truthy (cc_addrs rq) then [(''Cc'', py_join '', '' (opt_or_empty (cc_addrs rq)))] else [])
        @ [(''Subject'', subject rq), (''Date'', date), (''Message-ID'', mid)]
      in if list_ex (\<lambda>kv. has_newline (snd kv)) hdrs then Inl ValueError
         else Inr
           \<lparr>msg_headers = hdrs,
            msg_body =
              (if opt_truthy (text_body rq) \<and> opt_truthy (html_body rq)
               then Alternative (opt_or_empty (text_body rq)) (opt_or_empty (html_body rq))
               else if opt_truthy (html_body rq)
               then Alternative ''This email contains HTML content.'' (opt_or_empty (html_body rq))
               else Plain (opt_or_empty (text_body rq))),
            msg_attachments = []\<rparr>)"

text \<open>
  \<open>smtp\<close> is the dialogue with 127.0.0.1:1025: None when \<^verbatim>\<open>send_message\<close> returns, the text
  of the exception otherwise. \<open>date\<close> and \<open>mid\<close> are the results of \<^verbatim>\<open>formatdate\<close> and
  \<^verbatim>\<open>make_msgid\<close>. The result pairs the number of SMTP connections attempted with what the
  call returns or raises.
\<close>

definition send_email_smtp ::
  "lib \<Rightarrow> fs \<Rightarrow> (email_message \<Rightarrow> string \<Rightarrow> string list \<Rightarrow> string option) \<Rightarrow> string \<Rightarrow> string \<Rightarrow>
   send_request \<Rightarrow> nat \<times> (exn + SendResult)" where
  "send_email_smtp L fs smtp date mid rq =
     (case exn_bind (build_message date mid rq)
             (\<lambda>msg0. attach_files L fs msg0 (attachments_paths rq)) of
        Inl e \<Rightarrow> (0, Inl e)
      | Inr msg \<Rightarrow>
          (let recipients = to_addrs rq @ opt_or_empty (cc_addrs rq) @ opt_or_empty (bcc_addrs rq) in
           (1, Inr (case smtp msg (from_addr rq) recipients of
                      None \<Rightarrow> \<lparr>success = True, message_id = Some mid, error = None\<rparr>
                    | Some e \<Rightarrow> \<lparr>success = False, message_id = None, error = Some e\<rparr>))))"

section \<open>The capture sink (\<^verbatim>\<open>mail_sink/server.py\<close>)\<close>

text \<open>The storage directory, below the working directory of the process (left implicit).\<close>

definition STORAGE_DIR :: string where
  "STORAGE_DIR = ''docs/examples/demo_apps/email_mcp/mcp_mail''"

text \<open>\<^verbatim>\<open>msg.get_all(name, [])\<close> and \<^verbatim>\<open>msg.get(name)\<close>; header names compare without case.
  Reading a header can raise (\<open>header_error\<close>).\<close>

definition get_all :: "lib \<Rightarrow> message \<Rightarrow> string \<Rightarrow> exn + string list" where
  "get_all L m name =
     (case header_error L m name of
        Some e \<Rightarrow> Inl e
      | None \<Rightarrow>
          Inr (map snd (filter (\<lambda>kv. str_lower (fst kv) = str_lower name) (headers (info m)))))"

definition hdr_get :: "lib \<Rightarrow> message \<Rightarrow> string \<Rightarrow> exn + string option" where
  "hdr_get L m name =
     exn_bind (get_all L m name) (\<lambda>vs. Inr (case vs of [] \<Rightarrow> None | v # rest \<Rightarrow> Some v))"

definition decode_hdr :: "lib \<Rightarrow> string option \<Rightarrow> string option" where
  "decode_hdr L val =
     (case val of
        None \<Rightarrow> None
      | Some v \<Rightarrow> if v = [] then Some v
                  else (case rfc2047_decode L v of Some s \<Rightarrow> Some s | None \<Rightarrow> Some v))"

text \<open>The characters \<^verbatim>\<open>str.strip()\<close> removes, among the code points up to 255.\<close>

definition is_space :: "char \<Rightarrow> bool" where
  "is_space c =
     (c \<in> set [CHR '' '', CHR 0x09, CHR 0x0A, CHR 0x0B, CHR 0x0C, CHR 0x0D,
                CHR 0x1C, CHR 0x1D, CHR 0x1E, CHR 0x1F, CHR 0x85, CHR 0xA0])"

definition strip :: "string \<Rightarrow> string" where
  "strip s = rev (dropWhile is_space (rev (dropWhile is_space s)))"

text \<open>\<^verbatim>\<open>v.split(",")\<close>\<close>

fun split_comma :: "string \<Rightarrow> string list" where
  "split_comma [] = [[]]"
| "split_comma (c # cs) =
     (if c = CHR '','' then [] # split_comma cs
      else (case split_comma cs of [] \<Rightarrow> [[c]] | x # xs \<Rightarrow> (c # x) # xs))"

fun headers_loop :: "string option list \<Rightarrow> string list" where
  "headers_loop [] = []"
| "headers_loop (None # vs) = headers_loop vs"
| "headers_loop (Some v # vs) =
     (if v = [] then headers_loop vs
      else (let parts = filter (\<lambda>p. p \<noteq> []) (map strip (split_comma v))
            in (if parts \<noteq> [] then parts else [v]) @ headers_loop vs))"

definition headers_list :: "lib \<Rightarrow> message \<Rightarrow> string \<Rightarrow> exn + string list" where
  "headers_list L msg name =
     exn_bind (get_all L msg name)
       (\<lambda>vals. Inr (headers_loop (map (\<lambda>v. decode_hdr L (Some v)) vals)))"

text \<open>
  The nested \<^verbatim>\<open>try\<close> that reads the text of one part: \<^verbatim>\<open>get_content()\<close>, and when that
  raises, the decoded payload decoded with the part's charset (or UTF-8); None when both
  raise (a payload of None has no \<^verbatim>\<open>decode\<close>).
\<close>

definition part_text :: "lib \<Rightarrow> message \<Rightarrow> string option" where
  "part_text L p =
     (case get_content (info p) of
        Some s \<Rightarrow> Some s
      | None \<Rightarrow> (case get_payload (info p) of
                   PayloadBytes b \<Rightarrow> codec_decode L (charset_or_utf8 p) b
                 | _ \<Rightarrow> None))"

text \<open>The \<^verbatim>\<open>for part in msg.walk()\<close> loop of \<^verbatim>\<open>_best_effort_bodies\<close>, with its
  \<^verbatim>\<open>continue\<close> and \<^verbatim>\<open>break\<close>.\<close>

fun bodies_loop ::
  "lib \<Rightarrow> string option \<Rightarrow> string option \<Rightarrow> message list \<Rightarrow> string option \<times> string option" where
  "bodies_loop L text html [] = (text, html)"
| "bodies_loop L text html (part # parts) =
     (if disp part = ''attachment'' then bodies_loop L text html parts
      else
        (let ctype = content_type (info part);
             text' = (if ctype = ''text/plain'' \<and> text = None then part_text L part else text);
             html' = (if \<not> (ctype = ''text/plain'' \<and> text = None) \<and> ctype = ''text/html'' \<and> html = None
                      then part_text L part else html)
         in if text' \<noteq> None \<and> html' \<noteq> None then (text', html')
            else bodies_loop L text' html' parts))"

definition best_effort_bodies :: "lib \<Rightarrow> message \<Rightarrow> string option \<times> string option" where
  "best_effort_bodies L msg =
     (if is_multipart msg then bodies_loop L None None (walk msg)
      else
        (let ctype = content_type (info msg);
             payload = part_text L msg
         in if ctype = ''text/plain'' then (payload, None)
            else if ctype = ''text/html'' then (None, payload)
            else (None, None)))"

text \<open>\<^verbatim>\<open>_attachment_metadata\<close>: the size is the length of the decoded payload, 0 when
  decoding raises or yields None.\<close>

definition payload_size :: "message \<Rightarrow> int" where
  "payload_size p = (case get_payload (info p) of PayloadBytes b \<Rightarrow> int (length b) | _ \<Rightarrow> 0)"

definition metadata_entry :: "message \<Rightarrow> dict" where
  "metadata_entry p =
     [(''filename'', JStr (filename_or_empty p)),
      (''content_type'', JStr (content_type (info p))),
      (''size_bytes'', JNum (payload_size p))]"

fun metadata_loop :: "message list \<Rightarrow> dict list" where
  "metadata_loop [] = []"
| "metadata_loop (part # parts) =
     (if disp part = ''attachment'' \<or> has_filename part
      then metadata_entry part # metadata_loop parts
      else metadata_loop parts)"

definition attachment_metadata :: "message \<Rightarrow> dict list" where
  "attachment_metadata msg = metadata_loop (walk msg)"

definition opt_json :: "string option \<Rightarrow> json" where
  "opt_json v = (case v of None \<Rightarrow> JNull | Some s \<Rightarrow> JStr s)"

text \<open>The bodies and the attachment metadata are computed first, then the dict literal
  reads the headers in the order written; the first read that raises ends the handler.\<close>

definition build_record :: "lib \<Rightarrow> string \<Rightarrow> string \<Rightarrow> string \<Rightarrow> message \<Rightarrow> exn + dict" where
  "build_record L uid now eml_path parsed =
     (let bodies = best_effort_bodies L parsed;
          attachments = attachment_metadata parsed
      in exn_bind (hdr_get L parsed ''Subject'') (\<lambda>subj.
         exn_bind (hdr_get L parsed ''From'') (\<lambda>frm.
         exn_bind (headers_list L parsed ''To'') (\<lambda>to.
         exn_bind (headers_list L parsed ''Cc'') (\<lambda>cc.
         exn_bind (headers_list L parsed ''Bcc'') (\<lambda>bcc.
         exn_bind (hdr_get L parsed ''Date'') (\<lambda>date.
         exn_bind (hdr_get L parsed ''Message-ID'') (\<lambda>mid.
         exn_bind (hdr_get L parsed ''In-Reply-To'') (\<lambda>irt.
         exn_bind (hdr_get L parsed ''References'') (\<lambda>refs.
           Inr [(''id'', JStr uid),
                (''stored_at'', JStr now),
                (''subject'', opt_json (decode_hdr L subj)),
                (''from'', opt_json (decode_hdr L frm)),
                (''to'', JArr (map JStr to)),
                (''cc'', JArr (map JStr cc)),
                (''bcc'', JArr (map JStr bcc)),
                (''date'', opt_json (decode_hdr L date)),
                (''message_id'', opt_json mid),
                (''in_reply_to'', opt_json (decode_hdr L irt)),
                (''references'', opt_json (decode_hdr L refs)),
                (''text'', opt_json (fst bodies)),
                (''html'', opt_json (snd bodies)),
                (''attachments'', JArr (map JObj attachments)),
                (''raw_path'', JStr eml_path)]))))))))))"

definition eml_path_of :: "string \<Rightarrow> string" where
  "eml_path_of uid = path_join STORAGE_DIR (uid @ ''.eml'')"

definition json_path_of :: "string \<Rightarrow> string" where
  "json_path_of uid = path_join STORAGE_DIR (uid @ ''.json'')"

text \<open>
  \<^verbatim>\<open>Path.write_bytes\<close> and \<^verbatim>\<open>Path.write_text\<close> open the file, which creates or empties it,
  and then write. What happens to a write is given per path: it completes; or opening
  fails and the file system is as before; or the file is opened and the write fails after
  some of the bytes, which leaves a file holding those. The second component tells
  whether the write returned (otherwise it raised OSError).
\<close>

datatype write_outcome = Written | NotOpened | Truncated nat

definition write_file :: "(string \<Rightarrow> write_outcome) \<Rightarrow> fs \<Rightarrow> string \<Rightarrow> bytes \<Rightarrow> fs \<times> bool" where
  "write_file writes fs p data =
     (case writes p of
        Written \<Rightarrow> (fs(p \<mapsto> File data), True)
      | NotOpened \<Rightarrow> (fs, False)
      | Truncated n \<Rightarrow> (fs(p \<mapsto> File (take n data)), False))"

text \<open>
  \<^verbatim>\<open>SinkHandler.handle_message\<close>. \<open>uid\<close> is the result of \<^verbatim>\<open>uuid.uuid4()\<close>, \<open>now\<close> the
  ISO text of \<^verbatim>\<open>datetime.now(timezone.utc)\<close>. The result is the file system the handler
  leaves behind, and whether it returned or raised.
\<close>

definition handle_message ::
  "lib \<Rightarrow> (string \<Rightarrow> write_outcome) \<Rightarrow> string \<Rightarrow> string \<Rightarrow> message \<Rightarrow> fs \<Rightarrow> fs \<times> (exn + unit)" where
  "handle_message L writes uid now message fs =
     (let raw_bytes = as_bytes L message;
          parsed = parsebytes L raw_bytes;
          eml_path = eml_path_of uid;
          json_path = json_path_of uid
      in case write_file writes fs eml_path raw_bytes of
           (fs1, False) \<Rightarrow> (fs1, Inl OSError)
         | (fs1, True) \<Rightarrow>
             (case build_record L uid now eml_path parsed of
                Inl e \<Rightarrow> (fs1, Inl e)
              | Inr record \<Rightarrow>
                  (case write_file writes fs1 json_path (json_dumps L record) of
                     (fs2, False) \<Rightarrow> (fs2, Inl OSError)
                   | (fs2, True) \<Rightarrow> (fs2, Inr ()))))"


text \<open>The stores the sink can leave behind, starting from an empty directory.\<close>

inductive reachable :: "lib \<Rightarrow> fs \<Rightarrow> bool" where
  reachable_empty: "reachable L Map.empty"
| reachable_capture:
    "reachable L fs \<Longrightarrow> reachable L (fst (handle_message L writes uid now message fs))"

text \<open>The property that every metadata artifact has its raw artifact.\<close>

definition raw_present :: "fs \<Rightarrow> bool" where
  "raw_present fs = (\<forall>uid. fs (json_path_of uid) \<noteq> None \<longrightarrow> fs (eml_path_of uid) \<noteq> None)"

section \<open>The search predicate in the specification's words\<close>

text \<open>
  The specification filters to records whose lower-cased concatenation of
  \<^verbatim>\<open>subject | from | to(joined) | text\<close> contains the lower-cased query as a literal
  substring. \<open>field_text\<close> is the text of an optional string field (empty when absent or
  null), \<open>to_list\<close> the address list; the four texts are lower-cased and put together
  with the separator of the formula; \<open>searchable\<close> says that the four fields have the types
  the sink writes. \<open>row_of\<close> is the reduced projection: the five fields, each with the
  stored value, or null when the record has none.
\<close>

definition field_text :: "dict \<Rightarrow> string \<Rightarrow> string" where
  "field_text r k = (case map_of r k of Some (JStr s) \<Rightarrow> s | _ \<Rightarrow> [])"

definition to_list :: "dict \<Rightarrow> string list" where
  "to_list r = (case map_of r ''to'' of Some (JArr xs) \<Rightarrow> List.map_filter str_of xs | _ \<Rightarrow> [])"

definition spec_haystack :: "lib \<Rightarrow> dict \<Rightarrow> string" where
  "spec_haystack L r =
     lower L (field_text r ''subject'') @ '' | '' @ lower L (field_text r ''from'') @ '' | ''
     @ lower L (py_join '' '' (to_list r)) @ '' | '' @ lower L (field_text r ''text'')"

definition matches :: "lib \<Rightarrow> string \<Rightarrow> dict \<Rightarrow> bool" where
  "matches L q r = sublist (lower L q) (spec_haystack L r)"

definition stored_value :: "dict \<Rightarrow> string \<Rightarrow> json" where
  "stored_value r k = (case map_of r k of None \<Rightarrow> JNull | Some v \<Rightarrow> v)"

definition row_of :: "dict \<Rightarrow> dict" where
  "row_of r = map (\<lambda>k. (k, stored_value r k)) [''id'', ''subject'', ''from'', ''to'', ''date'']"

definition str_or_null :: "json option \<Rightarrow> bool" where
  "str_or_null v = (case v of None \<Rightarrow> True | Some JNull \<Rightarrow> True | Some (JStr s) \<Rightarrow> True | _ \<Rightarrow> False)"

definition searchable :: "dict \<Rightarrow> bool" where
  "searchable r =
     (str_or_null (map_of r ''subject'') \<and> str_or_null (map_of r ''from'') \<and>
      str_or_null (map_of r ''text'') \<and>
      (case map_of r ''to'' of
         None \<Rightarrow> True
       | Some JNull \<Rightarrow> True
       | Some (JArr xs) \<Rightarrow> list_all (\<lambda>x. str_of x \<noteq> None) xs
       | _ \<Rightarrow> False))"

text \<open>
  A part whose disposition is attachment, in the specification's words: it has a
  disposition, and that is the word \<^verbatim>\<open>attachment\<close> in any case.
\<close>

definition attachment_disposition :: "message \<Rightarrow> bool" where
  "attachment_disposition p =
     (case content_disposition (info p) of
        None \<Rightarrow> False
      | Some d \<Rightarrow> str_lower d = ''attachment'')"


definition first_text :: "lib \<Rightarrow> string \<Rightarrow> message list \<Rightarrow> string option" where
  "first_text L ctype parts =
     (case List.find (\<lambda>p. \<not> attachment_disposition p \<and> content_type (info p) = ctype
                            \<and> part_text L p \<noteq> None) parts of
        None \<Rightarrow> None
      | Some p \<Rightarrow> part_text L p)"


section \<open>Sample inputs\<close>

text \<open>
  Concrete stand-ins for the library calls, used to run the definitions on examples. Files
  hold short texts; \<open>sample_lib\<close> parses exactly the texts below and rejects every other
  one, knows the UTF-8 and ASCII codecs (as the identity on bytes), reads the ISO
  timestamps listed, lower-cases as \<^verbatim>\<open>str.lower()\<close> does on ASCII text (all the sample
  texts are ASCII), and reads every header without an exception.
\<close>

definition py_suffix :: "string \<Rightarrow> string" where
  "py_suffix f =
     (let name = path_name f; ext = rev (takeWhile (\<lambda>c. c \<noteq> CHR ''.'') (rev name))
      in if CHR ''.'' \<in> set name \<and> ext \<noteq> [] \<and> length ext + 1 < length name
         then CHR ''.'' # ext else [])"

definition notes_entry :: dict where
  "notes_entry =
     [(''filename'', JStr ''notes.txt''), (''content_type'', JStr ''text/plain''),
      (''size_bytes'', JNum 5)]"

definition m1_meta :: dict where
  "m1_meta =
     [(''id'', JStr ''m1''), (''stored_at'', JStr ''2024-01-01T00:00:00+00:00''),
      (''subject'', JStr ''Weekly Report''), (''from'', JStr ''ann@example.local''),
      (''to'', JArr [JStr ''bob@example.local'']), (''date'', JStr ''Mon, 01 Jan 2024''),
      (''text'', JStr ''numbers attached''), (''html'', JNull),
      (''attachments'', JArr [JObj notes_entry]), (''raw_path'', JStr ''mcp_mail/m1.eml'')]"

definition m2_meta :: dict where
  "m2_meta =
     [(''id'', JStr ''m2''), (''stored_at'', JStr ''2024-01-02T00:00:00+00:00''),
      (''subject'', JStr ''Lunch''), (''from'', JStr ''bob@example.local''),
      (''to'', JArr [JStr ''ann@example.local'']), (''date'', JStr ''Tue, 02 Jan 2024''),
      (''text'', JStr ''see the WEEKLY REPORT first''), (''html'', JNull),
      (''attachments'', JArr []), (''raw_path'', JStr ''mcp_mail/m2.eml'')]"

definition m3_meta :: dict where
  "m3_meta =
     [(''id'', JStr ''m3''), (''stored_at'', JStr ''2024-01-03T00:00:00+00:00''),
      (''subject'', JStr ''Hello''), (''from'', JStr ''cy@example.local''),
      (''to'', JArr [JStr ''ann@example.local'', JStr ''bob@example.local'']),
      (''date'', JStr ''Wed, 03 Jan 2024''),
      (''text'', JStr ''hi''), (''html'', JStr ''<p>weekly report</p>''),
      (''attachments'', JArr []), (''raw_path'', JStr ''mcp_mail/m3.eml'')]"

definition old_meta :: dict where
  "old_meta = [(''id'', JStr ''old''), (''stored_at'', JStr ''1969-12-31T00:00:00+00:00'')]"

definition undated_meta :: dict where
  "undated_meta = [(''id'', JStr ''undated''), (''stored_at'', JStr ''yesterday'')]"

text \<open>A record whose subject is a number.\<close>

definition numbered_meta :: dict where
  "numbered_meta = [(''id'', JStr ''n1''), (''subject'', JNum 5)]"

text \<open>Sample parts: a readable text part, a text part in a charset the run time does not
  know (both ways of reading it raise), an attachment, and a named inline part.\<close>

definition text_part :: "string \<Rightarrow> string \<Rightarrow> message" where
  "text_part ctype s =
     Leaf \<lparr>content_type = ctype, content_disposition = None, filename = None,
           content_charset = Some ''utf-8'', get_content = Some s,
           get_payload = PayloadBytes s, headers = []\<rparr>"


definition notes_part :: message where
  "notes_part =
     Leaf \<lparr>content_type = ''text/plain'', content_disposition = Some ''attachment'',
           filename = Some ''notes.txt'', content_charset = None, get_content = Some ''notes'',
           get_payload = PayloadBytes ''notes'', headers = []\<rparr>"

definition logo_part :: message where
  "logo_part =
     Leaf \<lparr>content_type = ''image/png'', content_disposition = Some ''inline'',
           filename = Some ''logo.png'', content_charset = None, get_content = None,
           get_payload = PayloadBytes ''PNG1234'', headers = []\<rparr>"

definition config_part :: message where
  "config_part =
     Leaf \<lparr>content_type = ''application/octet-stream'', content_disposition = Some ''attachment'',
           filename = Some ''Config.YML'', content_charset = None, get_content = None,
           get_payload = PayloadBytes ''a: 1'', headers = []\<rparr>"

definition container :: "string \<Rightarrow> message list \<Rightarrow> message" where
  "container ctype parts =
     Multipart \<lparr>content_type = ctype, content_disposition = None, filename = None,
                content_charset = None, get_content = None, get_payload = PayloadNone,
                headers = []\<rparr> parts"

definition sample_mixed :: message where
  "sample_mixed =
     container ''multipart/mixed''
       [container ''multipart/alternative''
          [text_part ''text/plain'' ''hello'', text_part ''text/html'' ''<p>hello</p>''],
        notes_part, logo_part, config_part]"





text \<open>
  A message as the SMTP library hands it over for the wire bytes \<open>sample_wire\<close> (two
  lines ended by CR LF): the headers received, followed by the three headers
  \<^verbatim>\<open>prepare_message\<close> adds. \<open>sample_as_bytes\<close> writes the headers and the body of a
  single-part message with the line separator of the default policy, LF.
\<close>

definition sample_wire :: bytes where
  "sample_wire = ''Subject: hi'' @ [CHR 0x0D, CHR 0x0A, CHR 0x0D, CHR 0x0A] @ ''body''
                 @ [CHR 0x0D, CHR 0x0A]"

definition sample_message :: message where
  "sample_message =
     Leaf \<lparr>content_type = ''text/plain'', content_disposition = None, filename = None,
           content_charset = None, get_content = Some (''body'' @ [CHR 0x0A]),
           get_payload = PayloadBytes (''body'' @ [CHR 0x0D, CHR 0x0A]),
           headers = [(''Subject'', ''hi''), (''X-Peer'', ''127.0.0.1''),
                      (''X-MailFrom'', ''ann@example.local''),
                      (''X-RcptTo'', ''bob@example.local'')]\<rparr>"

definition sample_as_bytes :: "message \<Rightarrow> bytes" where
  "sample_as_bytes m =
     concat (map (\<lambda>kv. fst kv @ '': '' @ snd kv @ [CHR 0x0A]) (headers (info m)))
     @ [CHR 0x0A]
     @ (case get_content (info m) of None \<Rightarrow> [] | Some s \<Rightarrow> s)"

definition sample_lib :: lib where
  "sample_lib =
     \<lparr>json_loads = map_of
        [(''<m1>'', JObj m1_meta), (''<m2>'', JObj m2_meta), (''<m3>'', JObj m3_meta),
         (''<old>'', JObj old_meta), (''<undated>'', JObj undated_meta),
         (''<n1>'', JObj numbered_meta), (''[1]'', JArr [JNum 1])],
      json_dumps = (\<lambda>d. ''<record>''),
      lower = str_lower,
      iso_timestamp = map_of
        [(''2024-01-01T00:00:00+00:00'', 1704067200),
         (''2024-01-02T00:00:00+00:00'', 1704153600),
         (''2024-01-03T00:00:00+00:00'', 1704240000),
         (''1969-12-31T00:00:00+00:00'', - 86400)],
      parsebytes = (\<lambda>b. if b = ''three'' then sample_mixed else text_part ''text/plain'' b),
      as_bytes = sample_as_bytes,
      path_suffix = py_suffix,
      codec_decode = (\<lambda>c b. if c \<in> set [''utf-8'', ''ascii''] then Some b else None),
      rfc2047_decode = Some,
      expanduser = Some,
      guess_type = (\<lambda>n. None),
      prepare_message =
        (\<lambda>w. if w = sample_wire then sample_message else text_part ''text/plain'' w),
      header_error = (\<lambda>m n. None)\<rparr>"

text \<open>The same library, on a message whose \<^verbatim>\<open>Subject\<close> header cannot be read.\<close>

definition defect_lib :: lib where
  "defect_lib =
     sample_lib\<lparr>header_error := (\<lambda>m n. if n = ''Subject'' then Some IndexError else None)\<rparr>"

text \<open>The write outcome under which every write completes.\<close>

definition all_written :: "string \<Rightarrow> write_outcome" where
  "all_written p = Written"

text \<open>A directory with three messages, whose raw artifact \<^verbatim>\<open>m1.eml\<close> is gone, and one
  metadata file that does not parse.\<close>

definition sample_fs :: fs where
  "sample_fs =
     [''mcp_mail'' \<mapsto> Dir,
      ''mcp_mail/m1.json'' \<mapsto> File ''<m1>'',
      ''mcp_mail/m2.json'' \<mapsto> File ''<m2>'',
      ''mcp_mail/m2.eml'' \<mapsto> File ''two'',
      ''mcp_mail/m3.json'' \<mapsto> File ''<m3>'',
      ''mcp_mail/m3.eml'' \<mapsto> File ''three'',
      ''mcp_mail/bad.json'' \<mapsto> File ''{oops'']"

definition sample_paths :: "string list" where
  "sample_paths =
     [''mcp_mail/bad.json'', ''mcp_mail/m1.json'', ''mcp_mail/m2.json'', ''mcp_mail/m3.json'']"

text \<open>The store after one capture of \<open>sample_message\<close> into an empty directory, with
  every write succeeding.\<close>

definition captured_store :: fs where
  "captured_store =
     fst (handle_message sample_lib all_written ''u1'' ''2024-01-04T00:00:00+00:00''
            sample_message Map.empty)"

text \<open>A directory with one record stamped before 1970 and one whose \<^verbatim>\<open>stored_at\<close> does
  not parse.\<close>

definition old_fs :: fs where
  "old_fs =
     [''mcp_mail/old.json'' \<mapsto> File ''<old>'',
      ''mcp_mail/undated.json'' \<mapsto> File ''<undated>'']"

definition old_paths :: "string list" where
  "old_paths = [''mcp_mail/old.json'', ''mcp_mail/undated.json'']"

text \<open>A directory where a metadata file holds a JSON list next to a record, and one whose
  only record has a number as its subject.\<close>

definition odd_fs :: fs where
  "odd_fs =
     [''mcp_mail/list.json'' \<mapsto> File ''[1]'',
      ''mcp_mail/m1.json'' \<mapsto> File ''<m1>'']"

definition odd_paths :: "string list" where
  "odd_paths = [''mcp_mail/list.json'', ''mcp_mail/m1.json'']"

definition numbered_fs :: fs where
  "numbered_fs = [''mcp_mail/n1.json'' \<mapsto> File ''<n1>'']"

definition numbered_paths :: "string list" where
  "numbered_paths = [''mcp_mail/n1.json'']"

definition sample_request :: send_request where
  "sample_request =
     \<lparr>from_addr = ''ann@example.local'', to_addrs = [''bob@example.local''],
      subject = ''Report'', text_body = Some ''see attachment'', html_body = None,
      cc_addrs = None, bcc_addrs = None, attachments_paths = Some [''/no/such/file'']\<rparr>"


section \<open>Properties of listing\<close>

lemma load_recs_filter:
  "load_recs L fs (filter (\<lambda>p. safe_load L fs p \<noteq> None) paths) = load_recs L fs paths"
  by (induction paths) (auto split: option.splits)

lemma is_substr_sublist: "is_substr q h \<longleftrightarrow> sublist q h"
  by (induction h) (auto simp: sublist_Cons_right)

lemma those_map_str_of:
  "list_all (\<lambda>x. str_of x \<noteq> None) xs \<Longrightarrow> those (map str_of xs) = Some (List.map_filter str_of xs)"
  by (induction xs) auto

lemma lower_of_field:
  "str_or_null (map_of r k) \<Longrightarrow> lower_of L (get_or r k (JStr [])) = Inr (lower L (field_text r k))"
  by (auto simp: str_or_null_def get_or_def field_text_def
      split: option.splits json.splits)

lemma join_to_field:
  assumes "searchable r"
  shows "join_to (get_or r ''to'' (JArr [])) = Inr (py_join '' '' (to_list r))"
  using assms
  by (auto simp: searchable_def get_or_def to_list_def those_map_str_of
      split: option.splits json.splits)

lemma hay_searchable:
  assumes "searchable r"
  shows "hay L r = Inr (spec_haystack L r)"
proof -
  have s: "str_or_null (map_of r ''subject'')" and f: "str_or_null (map_of r ''from'')"
    and t: "str_or_null (map_of r ''text'')"
    using assms by (simp_all add: searchable_def)
  show ?thesis
    unfolding hay_def lower_of_field [OF s] lower_of_field [OF f] lower_of_field [OF t]
      join_to_field [OF assms] exn_bind_def spec_haystack_def
    by simp
qed

lemma filter_hay_searchable:
  "\<forall>r\<in>set rs. searchable r \<Longrightarrow>
   filter_hay L (lower L q) rs = Inr (filter (matches L q) rs)"
  by (induction rs) (auto simp: hay_searchable exn_bind_def matches_def is_substr_sublist)

lemma set_sort_reverse [simp]: "set (sort_reverse k xs) = set xs"
  by (simp add: sort_reverse_def)

lemma sorted_sort_reverse: "sorted_wrt (\<lambda>a b. k b \<le> k a) (sort_reverse k xs)"
proof -
  have "sorted_wrt (\<lambda>a b. k a \<le> k b) (sort_key k (rev xs))"
    using sorted_sort_key [of k "rev xs"] by (simp add: sorted_map)
  then show ?thesis
    by (simp add: sort_reverse_def sorted_wrt_rev)
qed

lemma filter_hay_Inr:
  "filter_hay L q rs = Inr out \<Longrightarrow> out = filter (\<lambda>r. \<exists>h. hay L r = Inr h \<and> is_substr q h) rs"
  by (induction rs arbitrary: out) (auto simp: exn_bind_def split: sum.splits if_splits)

lemma dicts_of_objects: "dicts_of vs = Inr ds \<Longrightarrow> vs = map JObj ds"
proof (induction vs arbitrary: ds)
  case Nil
  then show ?case by simp
next
  case (Cons v vs)
  then show ?case
    by (cases v) (auto simp: exn_bind_def split: sum.splits)
qed

lemma summary_row: "summary r = row_of r"
  by (simp add: summary_def row_of_def stored_value_def get_json_def get_default_def)

lemma row_fields: "map fst (row_of r) = [''id'', ''subject'', ''from'', ''to'', ''date'']"
  by (simp add: row_of_def)

lemma list_raises:
  "dicts_of (load_recs L fs paths) = Inl e \<Longrightarrow> list_emails_fs L fs paths query limit = Inl e"
  by (simp add: list_emails_fs_def exn_bind_def)

lemma list_no_query:
  "dicts_of (load_recs L fs paths) = Inr ds \<Longrightarrow>
   list_emails_fs L fs paths None limit =
   Inr (map row_of (take (nat (max 1 limit)) (sort_reverse (stored_key L) ds)))"
  by (simp add: list_emails_fs_def exn_bind_def summary_row)

lemma list_empty_query:
  "dicts_of (load_recs L fs paths) = Inr ds \<Longrightarrow>
   list_emails_fs L fs paths (Some []) limit =
   Inr (map row_of (take (nat (max 1 limit)) (sort_reverse (stored_key L) ds)))"
  by (simp add: list_emails_fs_def exn_bind_def summary_row)

lemma list_returns_sorted_part:
  assumes "list_emails_fs L fs paths query limit = Inr out"
  shows "\<exists>ds recs. dicts_of (load_recs L fs paths) = Inr ds \<and> out = map row_of recs
           \<and> length recs \<le> nat (max 1 limit) \<and> set recs \<subseteq> set ds
           \<and> sorted_wrt (\<lambda>a b. stored_key L b \<le> stored_key L a) recs"
proof -
  from assms obtain ds where ds: "dicts_of (load_recs L fs paths) = Inr ds"
    by (cases "dicts_of (load_recs L fs paths)") (auto simp: list_emails_fs_def exn_bind_def)
  define xs where "xs = sort_reverse (stored_key L) ds"
  have "\<exists>ys. out = map row_of (take (nat (max 1 limit)) ys) \<and> set ys \<subseteq> set ds
      \<and> sorted_wrt (\<lambda>a b. stored_key L b \<le> stored_key L a) ys"
  proof (cases "\<exists>q. query = Some q \<and> q \<noteq> []")
    case True
    then obtain q where q: "query = Some q" "q \<noteq> []" by blast
    with assms ds obtain recs' where
      f: "filter_hay L (lower L q) xs = Inr recs'"
      and o: "out = map row_of (take (nat (max 1 limit)) recs')"
      by (auto simp: list_emails_fs_def exn_bind_def xs_def summary_row split: sum.splits)
    from filter_hay_Inr [OF f] have "set recs' \<subseteq> set ds"
      and "sorted_wrt (\<lambda>a b. stored_key L b \<le> stored_key L a) recs'"
      using sorted_sort_reverse [of "stored_key L" ds]
      by (auto simp: xs_def intro: sorted_wrt_filter)
    with o show ?thesis by blast
  next
    case False
    with assms ds have "out = map row_of (take (nat (max 1 limit)) xs)"
      by (cases query) (auto simp: list_emails_fs_def exn_bind_def xs_def summary_row)
    moreover have "set xs \<subseteq> set ds" by (simp add: xs_def)
    moreover have "sorted_wrt (\<lambda>a b. stored_key L b \<le> stored_key L a) xs"
      unfolding xs_def by (rule sorted_sort_reverse)
    ultimately show ?thesis by blast
  qed
  then obtain ys where ys: "out = map row_of (take (nat (max 1 limit)) ys)" "set ys \<subseteq> set ds"
      "sorted_wrt (\<lambda>a b. stored_key L b \<le> stored_key L a) ys"
    by blast
  have "set (take (nat (max 1 limit)) ys) \<subseteq> set ds"
    using ys(2) set_take_subset [of "nat (max 1 limit)" ys] by blast
  moreover have "sorted_wrt (\<lambda>a b. stored_key L b \<le> stored_key L a) (take (nat (max 1 limit)) ys)"
    using ys(3) by (rule sorted_wrt_take)
  moreover have "length (take (nat (max 1 limit)) ys) \<le> nat (max 1 limit)" by simp
  ultimately show ?thesis using ds ys(1) by blast
qed

lemma stored_key_unparsable:
  "(\<forall>t. get_default r ''stored_at'' (JStr []) = JStr t \<longrightarrow> iso_timestamp L t = None) \<Longrightarrow>
   stored_key L r = 0"
  by (auto simp: stored_key_def parse_iso_def split: json.splits option.splits)

lemma sorted_desc_hd:
  "sorted_wrt (\<lambda>a b. k b \<le> k a) xs \<Longrightarrow> xs \<noteq> [] \<Longrightarrow> \<forall>x\<in>set xs. (k x :: real) \<le> k (hd xs)"
  by (cases xs) auto

subsection \<open>The sample directory\<close>

lemma sample_loaded:
  "load_recs sample_lib sample_fs sample_paths = [JObj m1_meta, JObj m2_meta, JObj m3_meta]"
  by (simp add: sample_paths_def safe_load_def sample_fs_def sample_lib_def m1_meta_def
      m2_meta_def m3_meta_def)

lemma sample_dicts:
  "dicts_of (load_recs sample_lib sample_fs sample_paths) = Inr [m1_meta, m2_meta, m3_meta]"
  by (simp add: sample_loaded exn_bind_def)

lemma sample_keys:
  "stored_key sample_lib m1_meta = 1704067200"
  "stored_key sample_lib m2_meta = 1704153600"
  "stored_key sample_lib m3_meta = 1704240000"
  "stored_key sample_lib old_meta = - 86400"
  "stored_key sample_lib undated_meta = 0"
  by (simp_all add: stored_key_def parse_iso_def get_default_def sample_lib_def m1_meta_def
      m2_meta_def m3_meta_def old_meta_def undated_meta_def)

lemma sample_sorted:
  "sort_reverse (stored_key sample_lib) [m1_meta, m2_meta, m3_meta] = [m3_meta, m2_meta, m1_meta]"
  by (simp add: sort_reverse_def sample_keys)

lemma old_dicts:
  "dicts_of (load_recs sample_lib old_fs old_paths) = Inr [old_meta, undated_meta]"
  by (simp add: old_paths_def safe_load_def old_fs_def sample_lib_def old_meta_def
      undated_meta_def exn_bind_def)

lemma old_sorted:
  "sort_reverse (stored_key sample_lib) [old_meta, undated_meta] = [undated_meta, old_meta]"
  by (simp add: sort_reverse_def sample_keys)

lemma sample_rows:
  "row_of m1_meta =
     [(''id'', JStr ''m1''), (''subject'', JStr ''Weekly Report''),
      (''from'', JStr ''ann@example.local''), (''to'', JArr [JStr ''bob@example.local'']),
      (''date'', JStr ''Mon, 01 Jan 2024'')]"
  "row_of m2_meta =
     [(''id'', JStr ''m2''), (''subject'', JStr ''Lunch''),
      (''from'', JStr ''bob@example.local''), (''to'', JArr [JStr ''ann@example.local'']),
      (''date'', JStr ''Tue, 02 Jan 2024'')]"
  "row_of m3_meta =
     [(''id'', JStr ''m3''), (''subject'', JStr ''Hello''),
      (''from'', JStr ''cy@example.local''),
      (''to'', JArr [JStr ''ann@example.local'', JStr ''bob@example.local'']),
      (''date'', JStr ''Wed, 03 Jan 2024'')]"
  "row_of old_meta =
     [(''id'', JStr ''old''), (''subject'', JNull), (''from'', JNull), (''to'', JNull),
      (''date'', JNull)]"
  "row_of undated_meta =
     [(''id'', JStr ''undated''), (''subject'', JNull), (''from'', JNull), (''to'', JNull),
      (''date'', JNull)]"
  "row_of numbered_meta =
     [(''id'', JStr ''n1''), (''subject'', JNum 5), (''from'', JNull), (''to'', JNull),
      (''date'', JNull)]"
  by (simp_all add: row_of_def stored_value_def m1_meta_def m2_meta_def m3_meta_def
      old_meta_def undated_meta_def numbered_meta_def)

lemma sample_matches:
  "matches sample_lib ''weekly report'' m1_meta" "matches sample_lib ''weekly report'' m2_meta"
  "\<not> matches sample_lib ''weekly report'' m3_meta"
  by (simp_all add: matches_def spec_haystack_def field_text_def to_list_def m1_meta_def
      m2_meta_def m3_meta_def sample_lib_def str_lower_def lower_char_def List.map_filter_simps
      sublist_Cons_right)

lemma sample_searchable: "searchable m1_meta" "searchable m2_meta" "searchable m3_meta"
  by (simp_all add: searchable_def str_or_null_def m1_meta_def m2_meta_def m3_meta_def)

subsection \<open>Limit, order and projection\<close>

text \<open>
  C5, as the code has it. When every metadata file that loads holds a JSON object,
  listing without a query returns the rows of the first \<open>max(1, limit)\<close> loaded records in
  sorted order, so a limit of 0 or below still returns one item when a record loads; when
  a file holds another value that is true (a list, a number, a string), listing raises.
  Whenever listing returns, it returns at most \<open>max(1, limit)\<close> rows, each with exactly
  the fields id, subject, from, to, date and the values stored under them (null for a
  missing one), in descending order of the sort key. The sort key of a record whose
  \<^verbatim>\<open>stored_at\<close> does not parse is 0, the Unix epoch: such a record sorts after the records
  stored after the epoch, not after every record. With limit 1 the single row is that of a
  record with the greatest key.
\<close>

theorem list_limit_order_fields:
  "(dicts_of (load_recs L fs paths) = Inr ds \<longrightarrow>
      list_emails_fs L fs paths None limit =
        Inr (map (\<lambda>r. [(''id'', stored_value r ''id''), (''subject'', stored_value r ''subject''),
                        (''from'', stored_value r ''from''), (''to'', stored_value r ''to''),
                        (''date'', stored_value r ''date'')])
               (take (nat (max 1 limit)) (sort_reverse (stored_key L) ds))))
   \<and> (dicts_of (load_recs L fs paths) = Inl e \<longrightarrow> list_emails_fs L fs paths query limit = Inl e)
   \<and> (list_emails_fs L fs paths query limit = Inr out \<longrightarrow>
        int (length out) \<le> max 1 limit
        \<and> (\<forall>s\<in>set out. map fst s = [''id'', ''subject'', ''from'', ''to'', ''date''])
        \<and> (\<exists>recs. out = map row_of recs \<and> (\<forall>r\<in>set recs. JObj r \<in> set (load_recs L fs paths))
               \<and> sorted_wrt (\<lambda>a b. stored_key L b \<le> stored_key L a) recs))
   \<and> ((\<forall>t. get_default r ''stored_at'' (JStr []) = JStr t \<longrightarrow> iso_timestamp L t = None)
        \<longrightarrow> stored_key L r = 0)
   \<and> (dicts_of (load_recs L fs paths) = Inr ds \<and> ds \<noteq> [] \<longrightarrow>
        (\<exists>newest\<in>set ds.
           list_emails_fs L fs paths None 1 = Inr [row_of newest]
           \<and> (\<forall>r'\<in>set ds. stored_key L r' \<le> stored_key L newest)))"
proof (intro conjI impI)
  assume d: "dicts_of (load_recs L fs paths) = Inr ds"
  have "row_of = (\<lambda>r. [(''id'', stored_value r ''id''), (''subject'', stored_value r ''subject''),
                        (''from'', stored_value r ''from''), (''to'', stored_value r ''to''),
                        (''date'', stored_value r ''date'')])"
    by (simp add: row_of_def fun_eq_iff)
  with list_no_query [OF d, of limit]
  show "list_emails_fs L fs paths None limit =
        Inr (map (\<lambda>r. [(''id'', stored_value r ''id''), (''subject'', stored_value r ''subject''),
                        (''from'', stored_value r ''from''), (''to'', stored_value r ''to''),
                        (''date'', stored_value r ''date'')])
               (take (nat (max 1 limit)) (sort_reverse (stored_key L) ds)))"
    by simp
next
  assume "dicts_of (load_recs L fs paths) = Inl e"
  then show "list_emails_fs L fs paths query limit = Inl e" by (rule list_raises)
next
  assume a: "list_emails_fs L fs paths query limit = Inr out"
  from list_returns_sorted_part [OF a] obtain ds recs where
    ds: "dicts_of (load_recs L fs paths) = Inr ds" and out: "out = map row_of recs"
    and len: "length recs \<le> nat (max 1 limit)" and sub: "set recs \<subseteq> set ds"
    and srt: "sorted_wrt (\<lambda>a b. stored_key L b \<le> stored_key L a) recs"
    by blast
  show "int (length out) \<le> max 1 limit"
    using len unfolding out by simp
  show "\<forall>s\<in>set out. map fst s = [''id'', ''subject'', ''from'', ''to'', ''date'']"
    unfolding out by (auto simp: row_fields)
  have "\<forall>r\<in>set recs. JObj r \<in> set (load_recs L fs paths)"
    using sub dicts_of_objects [OF ds] by auto
  with out srt
  show "\<exists>recs. out = map row_of recs \<and> (\<forall>r\<in>set recs. JObj r \<in> set (load_recs L fs paths))
      \<and> sorted_wrt (\<lambda>a b. stored_key L b \<le> stored_key L a) recs"
    by blast
next
  assume "\<forall>t. get_default r ''stored_at'' (JStr []) = JStr t \<longrightarrow> iso_timestamp L t = None"
  then show "stored_key L r = 0" by (rule stored_key_unparsable)
next
  assume a: "dicts_of (load_recs L fs paths) = Inr ds \<and> ds \<noteq> []"
  then have d: "dicts_of (load_recs L fs paths) = Inr ds" and ne: "ds \<noteq> []" by simp_all
  define xs where "xs = sort_reverse (stored_key L) ds"
  have xne: "xs \<noteq> []" using ne set_sort_reverse [of "stored_key L" ds]
    unfolding xs_def by (metis set_empty)
  have "list_emails_fs L fs paths None 1 = Inr [row_of (hd xs)]"
    using xne unfolding list_no_query [OF d] xs_def [symmetric] by (cases xs) simp_all
  moreover have "hd xs \<in> set ds"
    using xne xs_def by (metis hd_in_set set_sort_reverse)
  moreover have "\<forall>r'\<in>set ds. stored_key L r' \<le> stored_key L (hd xs)"
    using sorted_desc_hd [OF sorted_sort_reverse xne [unfolded xs_def]]
    by (simp add: xs_def)
  ultimately show "\<exists>newest\<in>set ds.
           list_emails_fs L fs paths None 1 = Inr [row_of newest]
           \<and> (\<forall>r'\<in>set ds. stored_key L r' \<le> stored_key L newest)"
    by blast
qed

theorem list_limit_order_fields_witness:
  "dicts_of (load_recs sample_lib sample_fs sample_paths) = Inr [m1_meta, m2_meta, m3_meta] \<and>
   list_emails_fs sample_lib sample_fs sample_paths None 0 =
     Inr [[(''id'', JStr ''m3''), (''subject'', JStr ''Hello''),
           (''from'', JStr ''cy@example.local''),
           (''to'', JArr [JStr ''ann@example.local'', JStr ''bob@example.local'']),
           (''date'', JStr ''Wed, 03 Jan 2024'')]] \<and>
   list_emails_fs sample_lib sample_fs sample_paths None 1 =
     list_emails_fs sample_lib sample_fs sample_paths None 0 \<and>
   list_emails_fs sample_lib sample_fs sample_paths None 2 =
     Inr [[(''id'', JStr ''m3''), (''subject'', JStr ''Hello''),
           (''from'', JStr ''cy@example.local''),
           (''to'', JArr [JStr ''ann@example.local'', JStr ''bob@example.local'']),
           (''date'', JStr ''Wed, 03 Jan 2024'')],
          [(''id'', JStr ''m2''), (''subject'', JStr ''Lunch''),
           (''from'', JStr ''bob@example.local''), (''to'', JArr [JStr ''ann@example.local'']),
           (''date'', JStr ''Tue, 02 Jan 2024'')]] \<and>
   stored_key sample_lib undated_meta = 0"
  using list_limit_order_fields [of sample_lib sample_fs sample_paths
      "[m1_meta, m2_meta, m3_meta]" 0 undefined None "[row_of m3_meta]" undated_meta]
    list_limit_order_fields [of sample_lib sample_fs sample_paths
      "[m1_meta, m2_meta, m3_meta]" 1 undefined None "[row_of m3_meta]" undated_meta]
    list_limit_order_fields [of sample_lib sample_fs sample_paths
      "[m1_meta, m2_meta, m3_meta]" 2 undefined None "[row_of m3_meta]" undated_meta]
  by (simp add: sample_dicts sample_sorted sample_keys sample_rows [unfolded row_of_def, simplified])

text \<open>
  The claim as written fails in two ways. Records whose \<^verbatim>\<open>stored_at\<close> does not parse do
  not sort as oldest: in a directory holding a record stamped 1969-12-31 and a record
  stamped \<^verbatim>\<open>yesterday\<close>, the unparsable one is listed first, as the newer of the two.
  And not every store is listed: a directory where one metadata file holds the JSON list
  \<^verbatim>\<open>[1]\<close> makes listing raise.
\<close>

theorem list_unparsable_not_oldest:
  "iso_timestamp sample_lib ''yesterday'' = None \<and>
   iso_timestamp sample_lib ''1969-12-31T00:00:00+00:00'' = Some (- 86400) \<and>
   list_emails_fs sample_lib old_fs old_paths None 50 =
     Inr [[(''id'', JStr ''undated''), (''subject'', JNull), (''from'', JNull), (''to'', JNull),
           (''date'', JNull)],
          [(''id'', JStr ''old''), (''subject'', JNull), (''from'', JNull), (''to'', JNull),
           (''date'', JNull)]] \<and>
   list_emails_fs sample_lib odd_fs odd_paths None 50 = Inl AttributeError"
proof -
  have "dicts_of (load_recs sample_lib odd_fs odd_paths) = Inl AttributeError"
    by (simp add: odd_paths_def safe_load_def odd_fs_def sample_lib_def exn_bind_def)
  then have "list_emails_fs sample_lib odd_fs odd_paths None 50 = Inl AttributeError"
    by (rule list_raises)
  then show ?thesis
    by (simp add: list_no_query [OF old_dicts] old_sorted sample_rows) (simp add: sample_lib_def)
qed

subsection \<open>The query filter\<close>

text \<open>
  C6, as the code has it. For a non-empty query, when every metadata file that loads
  holds a JSON object whose subject, from and text are strings or null and whose to is a
  list of strings or null (the types the sink writes), listing returns (in sorted order,
  cut at the limit, as rows of the stored id, subject, from, to, date) exactly the records
  for which the lower-cased subject, from, to list joined by spaces, and text, put
  together with the separator \<^verbatim>\<open> | \<close>, contain the lower-cased query as a contiguous
  substring; an empty or omitted query returns all records subject to the limit; and no
  other field (html, cc, bcc, ...) takes part in the match.
\<close>

theorem list_query_filter:
  "(q \<noteq> [] \<and> dicts_of (load_recs L fs paths) = Inr ds \<and> (\<forall>r\<in>set ds. searchable r) \<longrightarrow>
      list_emails_fs L fs paths (Some q) limit =
        Inr (map row_of (take (nat (max 1 limit))
               (filter (\<lambda>r. sublist (lower L q)
                    (lower L (field_text r ''subject'') @ '' | ''
                     @ lower L (field_text r ''from'') @ '' | ''
                     @ lower L (py_join '' '' (to_list r)) @ '' | ''
                     @ lower L (field_text r ''text'')))
                  (sort_reverse (stored_key L) ds)))))
   \<and> (dicts_of (load_recs L fs paths) = Inr ds \<longrightarrow>
        list_emails_fs L fs paths (Some []) limit =
          Inr (map row_of (take (nat (max 1 limit)) (sort_reverse (stored_key L) ds)))
        \<and> list_emails_fs L fs paths None limit =
          Inr (map row_of (take (nat (max 1 limit)) (sort_reverse (stored_key L) ds))))
   \<and> (k \<notin> {''subject'', ''from'', ''to'', ''text''} \<longrightarrow>
        matches L q (AList.update k v r) = matches L q r)
   \<and> row_of r =
        [(''id'', stored_value r ''id''), (''subject'', stored_value r ''subject''),
         (''from'', stored_value r ''from''), (''to'', stored_value r ''to''),
         (''date'', stored_value r ''date'')]"
proof (intro conjI impI)
  assume a: "q \<noteq> [] \<and> dicts_of (load_recs L fs paths) = Inr ds \<and> (\<forall>r\<in>set ds. searchable r)"
  then have "\<forall>r\<in>set (sort_reverse (stored_key L) ds). searchable r"
    by simp
  from filter_hay_searchable [OF this, of L q] a
  have "list_emails_fs L fs paths (Some q) limit =
        Inr (map row_of (take (nat (max 1 limit))
               (filter (matches L q) (sort_reverse (stored_key L) ds))))"
    by (simp add: list_emails_fs_def exn_bind_def summary_row)
  moreover have "matches L q = (\<lambda>r. sublist (lower L q)
                    (lower L (field_text r ''subject'') @ '' | ''
                     @ lower L (field_text r ''from'') @ '' | ''
                     @ lower L (py_join '' '' (to_list r)) @ '' | ''
                     @ lower L (field_text r ''text'')))"
    by (simp add: matches_def spec_haystack_def fun_eq_iff)
  ultimately show "list_emails_fs L fs paths (Some q) limit =
        Inr (map row_of (take (nat (max 1 limit))
               (filter (\<lambda>r. sublist (lower L q)
                    (lower L (field_text r ''subject'') @ '' | ''
                     @ lower L (field_text r ''from'') @ '' | ''
                     @ lower L (py_join '' '' (to_list r)) @ '' | ''
                     @ lower L (field_text r ''text'')))
                  (sort_reverse (stored_key L) ds))))"
    by simp
next
  assume "k \<notin> {''subject'', ''from'', ''to'', ''text''}"
  then have "map_of (AList.update k v r) ''subject'' = map_of r ''subject''"
    and "map_of (AList.update k v r) ''from'' = map_of r ''from''"
    and "map_of (AList.update k v r) ''to'' = map_of r ''to''"
    and "map_of (AList.update k v r) ''text'' = map_of r ''text''"
    unfolding update_conv' by auto
  then show "matches L q (AList.update k v r) = matches L q r"
    unfolding matches_def spec_haystack_def field_text_def to_list_def by simp
next
  show "row_of r =
        [(''id'', stored_value r ''id''), (''subject'', stored_value r ''subject''),
         (''from'', stored_value r ''from''), (''to'', stored_value r ''to''),
         (''date'', stored_value r ''date'')]"
    by (simp add: row_of_def)
qed (simp_all add: list_empty_query list_no_query)

theorem list_query_filter_witness:
  "''weekly report'' \<noteq> [] \<and>
   dicts_of (load_recs sample_lib sample_fs sample_paths) = Inr [m1_meta, m2_meta, m3_meta] \<and>
   searchable m1_meta \<and> searchable m2_meta \<and> searchable m3_meta \<and>
   list_emails_fs sample_lib sample_fs sample_paths (Some ''weekly report'') 50 =
     Inr [[(''id'', JStr ''m2''), (''subject'', JStr ''Lunch''),
           (''from'', JStr ''bob@example.local''), (''to'', JArr [JStr ''ann@example.local'']),
           (''date'', JStr ''Tue, 02 Jan 2024'')],
          [(''id'', JStr ''m1''), (''subject'', JStr ''Weekly Report''),
           (''from'', JStr ''ann@example.local''), (''to'', JArr [JStr ''bob@example.local'']),
           (''date'', JStr ''Mon, 01 Jan 2024'')]]"
  using list_query_filter [of "''weekly report''" sample_lib sample_fs sample_paths
      "[m1_meta, m2_meta, m3_meta]" 50 "''html''"]
    sample_matches
  by (simp add: sample_dicts sample_sorted sample_searchable sample_rows matches_def
      spec_haystack_def)

text \<open>
  The claim as written (for every non-empty query, listing returns the records that
  match) fails on a directory whose only record has the number 5 as its subject: without a
  query the record is listed, with the query \<^verbatim>\<open>report\<close> the listing raises.
\<close>

theorem list_query_raises_on_number:
  "list_emails_fs sample_lib numbered_fs numbered_paths None 50 =
     Inr [[(''id'', JStr ''n1''), (''subject'', JNum 5), (''from'', JNull), (''to'', JNull),
           (''date'', JNull)]] \<and>
   list_emails_fs sample_lib numbered_fs numbered_paths (Some ''report'') 50 = Inl AttributeError"
proof -
  have d: "dicts_of (load_recs sample_lib numbered_fs numbered_paths) = Inr [numbered_meta]"
    by (simp add: numbered_paths_def safe_load_def numbered_fs_def sample_lib_def
        numbered_meta_def exn_bind_def)
  have "hay sample_lib numbered_meta = Inl AttributeError"
    by (simp add: hay_def numbered_meta_def get_or_def exn_bind_def)
  then have "list_emails_fs sample_lib numbered_fs numbered_paths (Some ''report'') 50
      = Inl AttributeError"
    by (simp add: list_emails_fs_def d exn_bind_def sort_reverse_def)
  then show ?thesis
    by (simp add: list_no_query [OF d] sort_reverse_def sample_rows)
qed

subsection \<open>Corrupt metadata files\<close>

text \<open>
  C10. Listing silently omits every metadata artifact that cannot be read or parsed: the
  listing of a directory is the listing of the same directory without the files for which
  loading fails, whatever the query and the limit, so a corrupt file neither raises, nor
  produces an error entry, nor changes what is returned for the other records.
\<close>

theorem list_omits_corrupt:
  "list_emails_fs L fs paths query limit =
   list_emails_fs L fs (filter (\<lambda>p. safe_load L fs p \<noteq> None) paths) query limit"
  unfolding list_emails_fs_def load_recs_filter ..

theorem list_omits_corrupt_witness:
  "safe_load sample_lib sample_fs ''mcp_mail/bad.json'' = None \<and>
   list_emails_fs sample_lib sample_fs sample_paths None 50 =
   list_emails_fs sample_lib sample_fs
     [''mcp_mail/m1.json'', ''mcp_mail/m2.json'', ''mcp_mail/m3.json''] None 50"
  using list_omits_corrupt [of sample_lib sample_fs sample_paths None 50]
  by (simp add: sample_paths_def safe_load_def sample_fs_def sample_lib_def)

section \<open>Properties of reading one message\<close>

lemma get_email_fs_raw_missing:
  assumes "path_exists fs (path_join MAIL_DIR (email_id @ ''.json''))"
    and "safe_load L fs (path_join MAIL_DIR (email_id @ ''.json'')) = Some (JObj data)"
    and "map_of data ''raw_path'' = Some (JStr s)" and "s \<noteq> []" and "fs s = None"
  shows "get_email_fs L fs email_id = Inr (AList.update ''attachments'' (JArr []) data)"
  using assms
  by (simp add: get_email_fs_def get_or_def mk_path_def path_truthy_def
      extract_textual_attachments_def exn_bind_def)

lemma sample_load_m1:
  "safe_load sample_lib sample_fs ''mcp_mail/m1.json'' = Some (JObj m1_meta)"
  by (simp add: safe_load_def sample_lib_def sample_fs_def)

text \<open>
  C1. The metadata of message \<^verbatim>\<open>m1\<close> records one attachment, \<^verbatim>\<open>notes.txt\<close>, and its raw
  artifact \<^verbatim>\<open>mcp_mail/m1.eml\<close> is no longer on disk. \<^verbatim>\<open>get_email_fs\<close> returns the record
  with an empty attachment list: the captured attachment metadata is overwritten, not
  returned.
\<close>

theorem get_email_fs_missing_raw_drops_attachments:
  "map_of m1_meta ''attachments'' = Some (JArr [JObj notes_entry]) \<and>
   sample_fs ''mcp_mail/m1.eml'' = None \<and>
   (\<exists>d. get_email_fs sample_lib sample_fs ''m1'' = Inr d \<and> map_of d ''attachments'' = Some (JArr []))"
proof -
  have "get_email_fs sample_lib sample_fs ''m1'' = Inr (AList.update ''attachments'' (JArr []) m1_meta)"
    by (rule get_email_fs_raw_missing [where s = "''mcp_mail/m1.eml''"])
       (simp_all add: path_join_def MAIL_DIR_def path_exists_def sample_load_m1,
        simp_all add: sample_fs_def m1_meta_def)
  then show ?thesis
    by (simp add: m1_meta_def sample_fs_def update_conv')
qed

section \<open>Properties of sending\<close>

text \<open>
  C2. Sending with the attachment path \<^verbatim>\<open>/no/such/file\<close>, which names no file, opens no
  SMTP connection, but does not return a result either: the FileNotFoundError raised by
  \<^verbatim>\<open>_attach_files\<close> leaves \<^verbatim>\<open>send_email_smtp\<close>, whose \<^verbatim>\<open>try\<close> only covers the SMTP
  dialogue.
\<close>

theorem send_missing_attachment_raises:
  "send_email_smtp sample_lib Map.empty (\<lambda>m f r. None) ''Thu, 04 Jan 2024'' ''<1@local>'' sample_request
   = (0, Inl (FileNotFoundError ''Attachment not found: /no/such/file''))"
  by (simp add: send_email_smtp_def build_message_def has_newline_def opt_truthy_def
      opt_or_empty_def attach_files_def sample_request_def sample_lib_def path_exists_def
      exn_bind_def)


section \<open>Properties of the MIME decoder\<close>




lemma disp_attachment: "disp p = ''attachment'' \<longleftrightarrow> attachment_disposition p"
  by (simp add: disp_def attachment_disposition_def str_lower_def split: option.splits)

lemma bodies_loop_first:
  "bodies_loop L t h ps =
     (if t \<noteq> None then t else first_text L ''text/plain'' ps,
      if h \<noteq> None then h else first_text L ''text/html'' ps)"
proof (induction ps arbitrary: t h)
  case Nil
  then show ?case by (simp add: first_text_def)
next
  case (Cons p ps)
  show ?case
  proof (cases "attachment_disposition p")
    case True
    then show ?thesis using Cons.IH [of t h] by (simp add: first_text_def disp_attachment)
  next
    case False
    then show ?thesis
      using Cons.IH
      by (auto simp: first_text_def disp_attachment Let_def split: option.splits)
  qed
qed

lemma first_text_append:
  "first_text L c pre = Some y \<Longrightarrow> first_text L c (pre @ rest) = Some y"
  by (induction pre) (auto simp: first_text_def split: if_splits)

lemma bodies_loop_stop:
  "fst (bodies_loop L t h pre) \<noteq> None \<Longrightarrow> snd (bodies_loop L t h pre) \<noteq> None \<Longrightarrow>
   bodies_loop L t h (pre @ rest) = bodies_loop L t h pre"
  unfolding bodies_loop_first
  by (auto simp: first_text_append split: if_splits)

subsection \<open>Body selection\<close>




subsection \<open>Attachment metadata at capture\<close>




subsection \<open>Inline text of attachments\<close>









section \<open>Properties of the capture sink\<close>

lemma path_join_suffix:
  assumes "s \<noteq> []" and "hd s \<noteq> CHR ''/''"
  shows "path_join d (x @ s) =
     (if x \<noteq> [] \<and> hd x = CHR ''/'' then x @ s else d @ ''/'' @ x @ s)"
  using assms by (cases x; cases s) (auto simp: path_join_def)

lemma eml_path_eq:
  "eml_path_of u =
     (if u \<noteq> [] \<and> hd u = CHR ''/'' then u @ ''.eml'' else STORAGE_DIR @ ''/'' @ u @ ''.eml'')"
  unfolding eml_path_of_def by (rule path_join_suffix) simp_all

lemma json_path_eq:
  "json_path_of u =
     (if u \<noteq> [] \<and> hd u = CHR ''/'' then u @ ''.json'' else STORAGE_DIR @ ''/'' @ u @ ''.json'')"
  unfolding json_path_of_def by (rule path_join_suffix) simp_all

lemma eml_ne_json: "eml_path_of u \<noteq> json_path_of v"
proof
  assume "eml_path_of u = json_path_of v"
  then have "last (eml_path_of u) = last (json_path_of v)" by simp
  then show False by (simp add: eml_path_eq json_path_eq split: if_splits)
qed

lemma json_eq_eml_eq:
  assumes "json_path_of u = json_path_of v"
  shows "eml_path_of u = eml_path_of v"
proof -
  define base where
    "base x = (if x \<noteq> [] \<and> hd x = CHR ''/'' then x else STORAGE_DIR @ ''/'' @ x)" for x
  have j: "json_path_of x = base x @ ''.json''" and e: "eml_path_of x = base x @ ''.eml''" for x
    by (simp_all add: json_path_eq eml_path_eq base_def)
  from assms show ?thesis unfolding j e by simp
qed

lemma write_file_keeps: "fs q \<noteq> None \<Longrightarrow> fst (write_file writes fs p data) q \<noteq> None"
  by (simp add: write_file_def split: write_outcome.splits)

lemma write_file_other: "q \<noteq> p \<Longrightarrow> fst (write_file writes fs p data) q = fs q"
  by (simp add: write_file_def split: write_outcome.splits)

lemma write_file_returns:
  "snd (write_file writes fs p data) \<longleftrightarrow> writes p = Written"
  "writes p = Written \<Longrightarrow> write_file writes fs p data = (fs(p \<mapsto> File data), True)"
  by (simp_all add: write_file_def split: write_outcome.splits)

text \<open>The handler in three cases: the raw write does not return; it returns and building
  the record raises; the record is built and the metadata write is attempted.\<close>

lemma handle_message_raw_fails:
  assumes "writes (eml_path_of uid) \<noteq> Written"
  shows "handle_message L writes uid now message fs =
     (fst (write_file writes fs (eml_path_of uid) (as_bytes L message)), Inl OSError)"
  using assms
  by (simp add: handle_message_def write_file_def Let_def split: write_outcome.splits)

lemma handle_message_build_fails:
  assumes "writes (eml_path_of uid) = Written"
    and "build_record L uid now (eml_path_of uid) (parsebytes L (as_bytes L message)) = Inl e"
  shows "handle_message L writes uid now message fs =
     (fs(eml_path_of uid \<mapsto> File (as_bytes L message)), Inl e)"
  using assms by (simp add: handle_message_def write_file_def Let_def)

lemma handle_message_built:
  assumes "writes (eml_path_of uid) = Written"
    and "build_record L uid now (eml_path_of uid) (parsebytes L (as_bytes L message)) = Inr record"
  shows "handle_message L writes uid now message fs =
     (fst (write_file writes (fs(eml_path_of uid \<mapsto> File (as_bytes L message)))
             (json_path_of uid) (json_dumps L record)),
      if writes (json_path_of uid) = Written then Inr () else Inl OSError)"
  using assms
  by (simp add: handle_message_def write_file_def Let_def split: write_outcome.splits)

lemma handle_message_returns:
  assumes "handle_message L writes uid now message fs = (fs', Inr ())"
  shows "writes (eml_path_of uid) = Written \<and> writes (json_path_of uid) = Written \<and>
     (\<exists>record. build_record L uid now (eml_path_of uid) (parsebytes L (as_bytes L message))
                  = Inr record \<and>
        fs' = fs(eml_path_of uid \<mapsto> File (as_bytes L message),
                 json_path_of uid \<mapsto> File (json_dumps L record)))"
proof -
  have w: "writes (eml_path_of uid) = Written"
    using assms handle_message_raw_fails [where writes = writes and uid = uid and L = L
        and now = now and message = message and fs = fs]
    by (cases "writes (eml_path_of uid) = Written") auto
  show ?thesis
  proof (cases "build_record L uid now (eml_path_of uid) (parsebytes L (as_bytes L message))")
    case (Inl e)
    from handle_message_build_fails [where writes = writes, OF w Inl] assms show ?thesis by simp
  next
    case (Inr rcd)
    from handle_message_built [where writes = writes and fs = fs, OF w Inr] assms
    have j: "writes (json_path_of uid) = Written" by (auto split: if_splits)
    with handle_message_built [where writes = writes and fs = fs, OF w Inr] assms w Inr show ?thesis
      by (simp add: write_file_returns)
  qed
qed

lemma handle_message_effect:
  "(\<forall>q. fs q \<noteq> None \<longrightarrow> fst (handle_message L writes uid now message fs) q \<noteq> None)
   \<and> (\<forall>q. q \<noteq> eml_path_of uid \<and> q \<noteq> json_path_of uid \<longrightarrow>
          fst (handle_message L writes uid now message fs) q = fs q)
   \<and> (fst (handle_message L writes uid now message fs) (json_path_of uid)
        \<noteq> fs (json_path_of uid) \<longrightarrow>
      fst (handle_message L writes uid now message fs) (eml_path_of uid) \<noteq> None)"
proof (cases "writes (eml_path_of uid) = Written")
  case False
  show ?thesis
    unfolding handle_message_raw_fails [where writes = writes, OF False]
    using eml_ne_json [of uid uid]
    by (auto simp: write_file_keeps write_file_other)
next
  case True
  note w = this
  show ?thesis
  proof (cases "build_record L uid now (eml_path_of uid) (parsebytes L (as_bytes L message))")
    case (Inl e)
    show ?thesis
      unfolding handle_message_build_fails [where writes = writes, OF w Inl]
      using eml_ne_json [of uid uid] by auto
  next
    case (Inr rcd)
    have k: "fst (write_file writes (fs(eml_path_of uid \<mapsto> File (as_bytes L message)))
             (json_path_of uid) (json_dumps L rcd)) (eml_path_of uid) \<noteq> None"
      by (rule write_file_keeps) simp
    show ?thesis
      unfolding handle_message_built [where writes = writes, OF w Inr]
      using k by (auto simp: write_file_keeps write_file_other)
  qed
qed

lemma raw_present_step:
  assumes "raw_present fs"
  shows "raw_present (fst (handle_message L writes uid now message fs))"
  unfolding raw_present_def
proof (intro allI impI)
  fix v
  assume j: "fst (handle_message L writes uid now message fs) (json_path_of v) \<noteq> None"
  note eff = handle_message_effect [of fs L writes uid now message]
  show "fst (handle_message L writes uid now message fs) (eml_path_of v) \<noteq> None"
  proof (cases "fs (json_path_of v) \<noteq> None")
    case True
    with assms have "fs (eml_path_of v) \<noteq> None" by (simp add: raw_present_def)
    with eff show ?thesis by blast
  next
    case False
    with j eff eml_ne_json [of uid v] have e: "json_path_of v = json_path_of uid"
      by metis
    then have "eml_path_of v = eml_path_of uid" by (rule json_eq_eml_eq)
    moreover from e j False
    have "fst (handle_message L writes uid now message fs) (json_path_of uid)
        \<noteq> fs (json_path_of uid)"
      by auto
    ultimately show ?thesis using eff by simp
  qed
qed

lemma reachable_raw_present: "reachable L fs \<Longrightarrow> raw_present fs"
proof (induction rule: reachable.induct)
  case (reachable_empty L)
  then show ?case by (simp add: raw_present_def)
next
  case (reachable_capture L fs writes uid now message)
  then show ?case by (simp add: raw_present_step)
qed

lemma build_record_reads:
  assumes "\<forall>n. header_error L m n = None"
  shows "\<exists>record. build_record L uid now p m = Inr record"
  using assms
  by (simp add: build_record_def hdr_get_def headers_list_def get_all_def exn_bind_def Let_def)

lemma build_record_subject_raises:
  assumes "header_error L m ''Subject'' = Some e"
  shows "build_record L uid now p m = Inl e"
  using assms
  by (simp add: build_record_def hdr_get_def get_all_def exn_bind_def Let_def)


lemma sample_capture_returns:
  "handle_message sample_lib all_written ''u1'' ''2024-01-04T00:00:00+00:00''
     sample_message Map.empty = (captured_store, Inr ())"
proof -
  have "\<forall>n. header_error sample_lib
      (parsebytes sample_lib (as_bytes sample_lib sample_message)) n = None"
    by (simp add: sample_lib_def)
  from build_record_reads [OF this] obtain rcd where
    "build_record sample_lib ''u1'' ''2024-01-04T00:00:00+00:00'' (eml_path_of ''u1'')
       (parsebytes sample_lib (as_bytes sample_lib sample_message)) = Inr rcd"
    by blast
  from handle_message_built [where writes = all_written and fs = Map.empty, OF _ this]
  show ?thesis
    by (simp add: captured_store_def all_written_def)
qed

subsection \<open>The raw artifact\<close>




subsection \<open>Raw and metadata artifacts\<close>

text \<open>
  C4, as the code has it. The raw artifact is written first and the metadata artifact
  last, with no step that undoes the first write. In every store the sink can leave
  behind, every metadata artifact has its raw artifact; a capture that returns has
  written both, the raw artifact and the metadata decoded from it; and when the raw
  artifact is written and decoding the headers raises, the handler raises with the raw
  artifact stored and nothing else changed.
\<close>

theorem capture_metadata_implies_raw:
  "(reachable L fs \<longrightarrow> (\<forall>v. fs (json_path_of v) \<noteq> None \<longrightarrow> fs (eml_path_of v) \<noteq> None))
   \<and> (handle_message L writes uid now message fs = (fs', Inr ()) \<longrightarrow>
        fs' (eml_path_of uid) = Some (File (as_bytes L message))
        \<and> (\<exists>record. build_record L uid now (eml_path_of uid) (parsebytes L (as_bytes L message))
                       = Inr record
             \<and> fs' (json_path_of uid) = Some (File (json_dumps L record))))
   \<and> (writes (eml_path_of uid) = Written
        \<and> build_record L uid now (eml_path_of uid) (parsebytes L (as_bytes L message)) = Inl e
        \<longrightarrow> handle_message L writes uid now message fs
              = (fs(eml_path_of uid \<mapsto> File (as_bytes L message)), Inl e))"
proof (intro conjI impI)
  assume "reachable L fs"
  then show "\<forall>v. fs (json_path_of v) \<noteq> None \<longrightarrow> fs (eml_path_of v) \<noteq> None"
    using reachable_raw_present by (simp add: raw_present_def)
next
  assume a: "handle_message L writes uid now message fs = (fs', Inr ())"
  from handle_message_returns [OF a] obtain rcd where
    r: "build_record L uid now (eml_path_of uid) (parsebytes L (as_bytes L message)) = Inr rcd"
    and f: "fs' = fs(eml_path_of uid \<mapsto> File (as_bytes L message),
                 json_path_of uid \<mapsto> File (json_dumps L rcd))"
    by blast
  show "fs' (eml_path_of uid) = Some (File (as_bytes L message))"
    unfolding f using eml_ne_json [of uid uid] by simp
  show "\<exists>record. build_record L uid now (eml_path_of uid) (parsebytes L (as_bytes L message))
                       = Inr record
             \<and> fs' (json_path_of uid) = Some (File (json_dumps L record))"
    using r f by simp
next
  assume "writes (eml_path_of uid) = Written
        \<and> build_record L uid now (eml_path_of uid) (parsebytes L (as_bytes L message)) = Inl e"
  then show "handle_message L writes uid now message fs
              = (fs(eml_path_of uid \<mapsto> File (as_bytes L message)), Inl e)"
    by (simp add: handle_message_build_fails)
qed

theorem capture_metadata_implies_raw_witness:
  "reachable sample_lib captured_store
   \<and> captured_store (json_path_of ''u1'') \<noteq> None
   \<and> captured_store (eml_path_of ''u1'') = Some (File (sample_as_bytes sample_message))
   \<and> handle_message defect_lib all_written ''u1'' ''2024-01-04T00:00:00+00:00''
        sample_message Map.empty
      = ([eml_path_of ''u1'' \<mapsto> File (sample_as_bytes sample_message)], Inl IndexError)"
proof -
  have r: "reachable sample_lib captured_store"
    unfolding captured_store_def by (intro reachable.intros)
  have a: "as_bytes sample_lib = sample_as_bytes" "as_bytes defect_lib = sample_as_bytes"
    by (simp_all add: sample_lib_def defect_lib_def)
  have d: "build_record defect_lib ''u1'' ''2024-01-04T00:00:00+00:00'' (eml_path_of ''u1'')
      (parsebytes defect_lib (as_bytes defect_lib sample_message)) = Inl IndexError"
    by (rule build_record_subject_raises) (simp add: defect_lib_def)
  have "captured_store (json_path_of ''u1'') \<noteq> None
      \<and> captured_store (eml_path_of ''u1'') = Some (File (sample_as_bytes sample_message))"
    using sample_capture_returns a
      capture_metadata_implies_raw [where L = sample_lib and fs = Map.empty
        and writes = all_written and uid = "''u1''" and now = "''2024-01-04T00:00:00+00:00''"
        and message = sample_message and fs' = captured_store]
    by auto
  moreover have "handle_message defect_lib all_written ''u1'' ''2024-01-04T00:00:00+00:00''
        sample_message Map.empty
      = ([eml_path_of ''u1'' \<mapsto> File (sample_as_bytes sample_message)], Inl IndexError)"
    using d a
      capture_metadata_implies_raw [where L = defect_lib and fs = Map.empty
        and writes = all_written and uid = "''u1''" and now = "''2024-01-04T00:00:00+00:00''"
        and message = sample_message and e = IndexError]
    by (simp add: all_written_def)
  ultimately show ?thesis using r by simp
qed

text \<open>
  The claim as written (both artifacts or neither) fails when the metadata file cannot
  be opened for writing: the store then holds the raw artifact of \<^verbatim>\<open>u1\<close> and no metadata
  artifact for it.
\<close>

theorem capture_leaves_raw_without_metadata:
  "reachable sample_lib
     (fst (handle_message sample_lib
             (\<lambda>p. if p = eml_path_of ''u1'' then Written else NotOpened) ''u1''
             ''2024-01-04T00:00:00+00:00'' sample_message Map.empty))
   \<and> handle_message sample_lib
             (\<lambda>p. if p = eml_path_of ''u1'' then Written else NotOpened) ''u1''
             ''2024-01-04T00:00:00+00:00'' sample_message Map.empty
       = ([eml_path_of ''u1'' \<mapsto> File (sample_as_bytes sample_message)], Inl OSError)
   \<and> [eml_path_of ''u1'' \<mapsto> File (sample_as_bytes sample_message)] (json_path_of ''u1'') = None"
proof -
  have "reachable sample_lib
     (fst (handle_message sample_lib
             (\<lambda>p. if p = eml_path_of ''u1'' then Written else NotOpened) ''u1''
             ''2024-01-04T00:00:00+00:00'' sample_message Map.empty))"
    by (intro reachable.intros)
  moreover have a: "as_bytes sample_lib = sample_as_bytes" by (simp add: sample_lib_def)
  moreover have "\<forall>n. header_error sample_lib
      (parsebytes sample_lib (as_bytes sample_lib sample_message)) n = None"
    by (simp add: sample_lib_def)
  from build_record_reads [OF this] obtain rcd where
    "build_record sample_lib ''u1'' ''2024-01-04T00:00:00+00:00'' (eml_path_of ''u1'')
       (parsebytes sample_lib (as_bytes sample_lib sample_message)) = Inr rcd"
    by blast
  from handle_message_built [where fs = Map.empty
      and writes = "\<lambda>p. if p = eml_path_of ''u1'' then Written else NotOpened", OF _ this]
  have "handle_message sample_lib
             (\<lambda>p. if p = eml_path_of ''u1'' then Written else NotOpened) ''u1''
             ''2024-01-04T00:00:00+00:00'' sample_message Map.empty
       = ([eml_path_of ''u1'' \<mapsto> File (sample_as_bytes sample_message)], Inl OSError)"
    using eml_ne_json [of "''u1''" "''u1''"]
    by (simp add: write_file_def a eq_commute [of "json_path_of ''u1''"])
  ultimately show ?thesis
    using eml_ne_json [of "''u1''" "''u1''"]
    by (simp add: eq_commute [of "json_path_of ''u1''"])
qed

end
